theory Spec2Isabelle
  imports Main "HOL-Library.Word"
begin

unbundle bit_operations_syntax

section \<open>Typed envelopes: the data model\<close>

text \<open>
  A \<^verbatim>\<open>Uint8Array\<close> is a list of 8-bit words. A typed array has at most
  \<open>2 ^ 53 - 1\<close> elements; a HOL list has no such bound, so the theorems that need
  the bound state it. A JavaScript number is a double: every integer below
  \<open>2 ^ 53\<close> is exact, and the model uses \<open>nat\<close> for lengths and offsets.
\<close>

type_synonym byte = "8 word"
type_synonym bytes = "byte list"

text \<open>
  Every \<^verbatim>\<open>throw\<close> is a value. \<open>RangeError\<close> is what the varint package raises
  when it cannot decode; \<open>Error\<close> carries the message of a
  \<^verbatim>\<open>throw new Error(msg)\<close> of the repository; \<open>SyntaxError\<close> is what
  \<^verbatim>\<open>JSON.parse\<close> raises; \<open>Fault\<close> is any fault raised by another collaborator
  (the cipher, the range parser, a caller's own deserializer).
\<close>

datatype error = RangeError | Error string | SyntaxError | Fault string

section \<open>The varint package\<close>

text \<open>
  Modelled from the spec: the \<^verbatim>\<open>varint\<close> package (version 6) is a dependency
  of the repository, not one of its source files. The spec calls its encoding a
  base-128 continuation-bit varint, little-endian group order. The three functions
  below follow the package: \<^verbatim>\<open>encode\<close> runs two loops, one dividing by 128 while
  the number is at least \<open>2 ^ 31\<close> and one shifting by 7 bits while a bit above the
  low seven is set; each loop emits \<^verbatim>\<open>(num & 0xFF) | 0x80\<close>; the last byte is the
  number that is left. \<^verbatim>\<open>encode\<close> refuses a number above
  \<^verbatim>\<open>Number.MAX_SAFE_INTEGER\<close>; its one caller here passes the length of a typed
  array, which is never that large, so the refusal is not a branch of the model.
\<close>

definition MSB :: nat where "MSB = 128"
definition REST :: nat where "REST = 127"
definition INT_31 :: nat where "INT_31 = 2 ^ 31"

function encode_shift :: "nat \<Rightarrow> bytes" where
  "encode_shift num =
     (if (int num) AND (NOT (int REST)) \<noteq> 0
      then of_nat ((num AND 255) OR MSB) # encode_shift (drop_bit 7 num)
      else [of_nat num])"
  by pat_completeness auto
termination
proof (relation "measure id")
  show "wf (measure id)" by simp
next
  fix num :: nat
  assume "(int num) AND (NOT (int REST)) \<noteq> 0"
  then have "num \<noteq> 0" by (rule contrapos_nn) simp
  then show "(drop_bit 7 num, num) \<in> measure id"
    by (simp add: drop_bit_eq_div)
qed

function encode_divide :: "nat \<Rightarrow> bytes" where
  "encode_divide num =
     (if INT_31 \<le> num
      then of_nat ((num AND 255) OR MSB) # encode_divide (num div 128)
      else encode_shift num)"
  by pat_completeness auto
termination
  by (relation "measure id") (auto simp: INT_31_def)

declare encode_shift.simps [simp del] encode_divide.simps [simp del]

definition varint_encode :: "nat \<Rightarrow> bytes" where
  "varint_encode num = encode_divide num"

text \<open>
  \<^verbatim>\<open>decode\<close> adds up \<^verbatim>\<open>(b & 0x7F) * 2 ^ shift\<close> byte by byte, as long as the
  byte read has its top bit set. It raises \<^verbatim>\<open>RangeError\<close> when the buffer ends
  first or when \<open>shift\<close> has passed 49 (a ninth byte). The sum is a double:
  \<open>dbl\<close> rounds a natural number to the nearest double, ties to even, which
  changes nothing below \<open>2 ^ 53\<close>.
\<close>

fun bitlen :: "nat \<Rightarrow> nat" where
  "bitlen n = (if n = 0 then 0 else Suc (bitlen (n div 2)))"

declare bitlen.simps [simp del]

definition dbl :: "nat \<Rightarrow> nat" where
  "dbl n =
     (if n < 2 ^ 53 then n
      else let e = bitlen n - 53; q = n div 2 ^ e; r = n mod 2 ^ e
           in if 2 * r < 2 ^ e \<or> (2 * r = 2 ^ e \<and> even q) then q * 2 ^ e
              else (q + 1) * 2 ^ e)"

fun decode_loop :: "nat \<Rightarrow> nat \<Rightarrow> bytes \<Rightarrow> error + nat" where
  "decode_loop res shift [] = Inl RangeError"
| "decode_loop res shift (b # buf) =
     (if 49 < shift then Inl RangeError
      else let res' = dbl (res + (if shift < 28
                                  then push_bit shift (unat (b AND of_nat REST))
                                  else unat (b AND of_nat REST) * 2 ^ shift))
           in if of_nat MSB \<le> b then decode_loop res' (shift + 7) buf
              else Inr res')"

definition varint_decode :: "bytes \<Rightarrow> error + nat" where
  "varint_decode buf = decode_loop 0 0 buf"

definition encodingLength :: "nat \<Rightarrow> nat" where
  "encodingLength v =
     (if v < 2 ^ 7 then 1
      else if v < 2 ^ 14 then 2
      else if v < 2 ^ 21 then 3
      else if v < 2 ^ 28 then 4
      else if v < 2 ^ 35 then 5
      else if v < 2 ^ 42 then 6
      else if v < 2 ^ 49 then 7
      else if v < 2 ^ 56 then 8
      else if v < 2 ^ 63 then 9
      else 10)"

section \<open>Byte-framing primitives\<close>

text \<open>
  \<^verbatim>\<open>concatUint8Arrays\<close> sums the lengths, allocates a zeroed array of that size
  and copies each argument in at a running index. \<open>set_at ret elem index\<close> is
  \<^verbatim>\<open>ret.set(elem, index)\<close>, which stays inside \<open>ret\<close> here because \<open>ret\<close> was
  allocated with the total length.
\<close>

definition set_at :: "bytes \<Rightarrow> bytes \<Rightarrow> nat \<Rightarrow> bytes" where
  "set_at ret elem index = take index ret @ elem @ drop (index + length elem) ret"

definition concatUint8Arrays :: "bytes list \<Rightarrow> bytes" where
  "concatUint8Arrays u8s =
     (let totalLen = foldl (\<lambda>t elem. t + length elem) 0 u8s;
          ret = replicate totalLen 0
      in fst (foldl (\<lambda>(ret, index) elem. (set_at ret elem index, index + length elem))
                    (ret, 0) u8s))"

text \<open>
  \<^verbatim>\<open>extractVarintPrefixed\<close> takes the cursor \<^verbatim>\<open>o.bs\<close> and returns the chunk
  together with the new cursor. The number of prefix bytes is recomputed from the
  decoded length with \<^verbatim>\<open>encodingLength\<close>, and both slices clamp to the end of the
  array, as \<^verbatim>\<open>Uint8Array.prototype.slice\<close> does.
\<close>

definition extractVarintPrefixed :: "bytes \<Rightarrow> error + bytes \<times> bytes" where
  "extractVarintPrefixed bs =
     (case varint_decode bs of
        Inl e \<Rightarrow> Inl e
      | Inr chunkLen \<Rightarrow>
          let chunkLenLen = encodingLength chunkLen;
              chunk = take chunkLen (drop chunkLenLen bs)
          in Inr (chunk, drop (chunkLen + chunkLenLen) bs))"

definition varintPrefixed :: "bytes \<Rightarrow> bytes" where
  "varintPrefixed data = concatUint8Arrays [varint_encode (length data), data]"

section \<open>Collaborators\<close>

text \<open>
  The platform and the libraries the repository calls are parameters of the model,
  so every theorem holds for whatever they compute. \<open>platform\<close> holds the
  module-level \<^verbatim>\<open>_encoder\<close> and \<^verbatim>\<open>_decoder\<close> (a \<^verbatim>\<open>TextEncoder\<close> and a
  \<^verbatim>\<open>TextDecoder\<close>), \<^verbatim>\<open>JSON\<close>, and the constructor of semver's \<^verbatim>\<open>Range\<close>.
  A \<open>Range\<close> is its \<^verbatim>\<open>test\<close> method and the text it prints as. A
  \<open>ChaCha20Poly1305\<close> is a key object: \<^verbatim>\<open>seal(nonce, plaintext, aad)\<close> and
  \<^verbatim>\<open>open(nonce, sealed, aad)\<close> (the field \<open>open_box\<close>), where \<^verbatim>\<open>open\<close>
  returns \<^verbatim>\<open>null\<close> when authentication fails and either may raise (on a nonce
  of the wrong length).
\<close>

datatype json =
    JNull
  | JBool bool
  | JNumber int
  | JString string
  | JArray "json list"
  | JObject "(string \<times> json) list"

record Range =
  test :: "string \<Rightarrow> bool"
  range :: string

record platform =
  encoder_encode :: "string \<Rightarrow> bytes"
  decoder_decode :: "bytes \<Rightarrow> string"
  JSON_stringify :: "json \<Rightarrow> string"
  JSON_parse :: "string \<Rightarrow> error + json"
  new_Range :: "string \<Rightarrow> error + Range"

record ChaCha20Poly1305 =
  seal :: "bytes \<Rightarrow> bytes \<Rightarrow> bytes \<Rightarrow> error + bytes"
  open_box :: "bytes \<Rightarrow> bytes \<Rightarrow> bytes \<Rightarrow> error + bytes option"

section \<open>The header record\<close>

record AADMeta =
  version :: string
  type :: string
  nonce :: bytes

definition METADATA_VERSION :: string where
  "METADATA_VERSION = ''0.1.0''"

definition serialize :: "platform \<Rightarrow> AADMeta \<Rightarrow> bytes" where
  "serialize P m =
     (let data = concatUint8Arrays
                   [varintPrefixed (encoder_encode P METADATA_VERSION),
                    varintPrefixed (encoder_encode P (version m)),
                    varintPrefixed (encoder_encode P (type m)),
                    varintPrefixed (nonce m)]
      in varintPrefixed data)"

text \<open>
  \<^verbatim>\<open>deserialize\<close> returns \<^verbatim>\<open>null\<close> (\<open>Inr None\<close>) on a format version it does not
  know, and raises on bytes left over after the four fields. The three constructor
  arguments are evaluated left to right, each advancing the cursor.
\<close>

definition deserialize :: "platform \<Rightarrow> bytes \<Rightarrow> error + AADMeta option" where
  "deserialize P data =
     (case extractVarintPrefixed data of
        Inl e \<Rightarrow> Inl e
      | Inr (c0, bs1) \<Rightarrow>
          if decoder_decode P c0 \<noteq> METADATA_VERSION then Inr None
          else (case extractVarintPrefixed bs1 of
                  Inl e \<Rightarrow> Inl e
                | Inr (c1, bs2) \<Rightarrow>
                    (case extractVarintPrefixed bs2 of
                       Inl e \<Rightarrow> Inl e
                     | Inr (c2, bs3) \<Rightarrow>
                         (case extractVarintPrefixed bs3 of
                            Inl e \<Rightarrow> Inl e
                          | Inr (c3, bs4) \<Rightarrow>
                              if length bs4 \<noteq> 0
                              then Inl (Error ''unexpected additional content in header'')
                              else Inr (Some \<lparr>version = decoder_decode P c1,
                                              type = decoder_decode P c2,
                                              nonce = c3\<rparr>)))))"

record unpacked =
  metadata :: "AADMeta option"
  rawMetadata :: bytes
  content :: bytes

text \<open>
  \<^verbatim>\<open>unpack\<close> is declared to return a record or \<^verbatim>\<open>null\<close>; its one
  \<^verbatim>\<open>return\<close> gives a record, so the model's result is the record or a fault.
  \<^verbatim>\<open>copyWithin(0, 0)\<close> copies an array onto itself. \<open>rawMetadata\<close> is the
  header prefixed again, not the bytes the header was read from.
\<close>

definition unpack :: "platform \<Rightarrow> bytes \<Rightarrow> error + unpacked" where
  "unpack P data =
     (case extractVarintPrefixed data of
        Inl e \<Rightarrow> Inl e
      | Inr (header, _) \<Rightarrow>
          let rawMetadata' = varintPrefixed header;
              content' = drop (length rawMetadata') data
          in (case deserialize P header of
                Inl e \<Rightarrow> Inl e
              | Inr metadata' \<Rightarrow>
                  (case extractVarintPrefixed header of
                     Inl e \<Rightarrow> Inl e
                   | Inr (c0, _) \<Rightarrow>
                       if decoder_decode P c0 \<noteq> METADATA_VERSION
                       then Inl (Error ''unrecognized metadata version'')
                       else Inr \<lparr>metadata = metadata',
                                 rawMetadata = rawMetadata',
                                 content = content'\<rparr>)))"

section \<open>Wire bytes\<close>

record TypedBytes =
  buf :: bytes

definition inspect :: "platform \<Rightarrow> TypedBytes \<Rightarrow> error + AADMeta option" where
  "inspect P tb =
     (case unpack P (buf tb) of
        Inl e \<Rightarrow> Inl e
      | Inr parsed \<Rightarrow>
          if metadata parsed = None then Inr None else Inr (metadata parsed))"

section \<open>Datagrams and the envelope\<close>

text \<open>
  A \<open>Datagram\<close> is the four members of the interface; \<open>dg_serialize\<close> is the
  array \<^verbatim>\<open>serialize()\<close> returns. \<^verbatim>\<open>decrypt\<close> never constructs the type it is
  given: it reads \<^verbatim>\<open>type\<close> and \<^verbatim>\<open>deserialize\<close> off
  \<^verbatim>\<open>Object.create(type.prototype)\<close>. A \<open>DatagramConstructor\<close> is those two
  members; \<open>proto_type\<close> is \<open>None\<close> when the class assigns \<^verbatim>\<open>type\<close> in its
  constructor, which the prototype never ran. In a result, \<open>None\<close> is \<^verbatim>\<open>null\<close>.
\<close>

record 'a Datagram =
  dg_type :: string
  dg_version :: string
  dg_serialize :: bytes
  dg_deserialize :: "bytes \<Rightarrow> string \<Rightarrow> error + 'a option"

record 'a DatagramConstructor =
  proto_type :: "string option"
  proto_deserialize :: "bytes \<Rightarrow> string \<Rightarrow> error + 'a option"

record TaggedSecretBox =
  key :: ChaCha20Poly1305

text \<open>
  \<^verbatim>\<open>encrypt\<close> takes the nonce as an argument; when the caller leaves it out, the
  argument is \<^verbatim>\<open>randomBytes(NONCE_LENGTH)\<close>.
\<close>

definition encrypt ::
  "platform \<Rightarrow> TaggedSecretBox \<Rightarrow> 'a Datagram \<Rightarrow> bytes \<Rightarrow> error + TypedBytes" where
  "encrypt P box obj nonce' =
     (let aad = \<lparr>version = dg_version obj, type = dg_type obj, nonce = nonce'\<rparr>;
          aadSerialized = serialize P aad
      in (case seal (key box) nonce' (dg_serialize obj) aadSerialized of
            Inl e \<Rightarrow> Inl e
          | Inr sealed \<Rightarrow> Inr \<lparr>buf = concatUint8Arrays [aadSerialized, sealed]\<rparr>))"

definition decrypt ::
  "platform \<Rightarrow> TaggedSecretBox \<Rightarrow> 'a DatagramConstructor \<Rightarrow> TypedBytes \<Rightarrow> error + 'a option" where
  "decrypt P box cls typedBytes =
     (case unpack P (buf typedBytes) of
        Inl e \<Rightarrow> Inl e
      | Inr unpacked' \<Rightarrow>
          (case metadata unpacked' of
             None \<Rightarrow> Inr None
           | Some md \<Rightarrow>
               (case open_box (key box) (nonce md) (content unpacked') (rawMetadata unpacked') of
                  Inl e \<Rightarrow> Inl e
                | Inr None \<Rightarrow> Inr None
                | Inr (Some decrypted) \<Rightarrow>
                    (case proto_deserialize cls decrypted (version md) of
                       Inl e \<Rightarrow> Inl e
                     | Inr candidate \<Rightarrow>
                         Inr (if proto_type cls = Some (type md) then candidate else None)))))"

section \<open>The Wrapper factory\<close>

text \<open>
  \<^verbatim>\<open>Wrapper(typeName, versionConstraint)\<close> parses a constraint given as text and
  returns a class closed over \<open>typeName\<close> and \<open>constraint\<close>; \<open>Wrapper_class\<close> is
  that closure. A wrapped value is the object
  \<^verbatim>\<open>{ type: typeName, version, data: obj }\<close>. \<open>member\<close> reads a property of a
  parsed value: \<open>None\<close> is \<^verbatim>\<open>undefined\<close>, which is what any value but an object
  with that key gives. \<open>nullable\<close> turns the value returned into the model's
  result, where \<^verbatim>\<open>null\<close> and \<^verbatim>\<open>undefined\<close> are both \<open>None\<close>.
\<close>

record Wrapper_class =
  typeName :: string
  constraint :: Range

definition Wrapper :: "platform \<Rightarrow> string \<Rightarrow> string + Range \<Rightarrow> error + Wrapper_class" where
  "Wrapper P typeName' versionConstraint =
     (case versionConstraint of
        Inl s \<Rightarrow>
          (case new_Range P s of
             Inl e \<Rightarrow> Inl e
           | Inr r \<Rightarrow> Inr \<lparr>typeName = typeName', constraint = r\<rparr>)
      | Inr r \<Rightarrow> Inr \<lparr>typeName = typeName', constraint = r\<rparr>)"

fun member :: "json \<Rightarrow> string \<Rightarrow> json option" where
  "member (JObject kvs) k = map_of kvs k"
| "member _ k = None"

fun nullable :: "json option \<Rightarrow> json option" where
  "nullable None = None"
| "nullable (Some JNull) = None"
| "nullable (Some v) = Some v"

definition wrapped :: "string \<Rightarrow> string \<Rightarrow> json \<Rightarrow> json" where
  "wrapped typeName' version' obj =
     JObject [(''type'', JString typeName'), (''version'', JString version'), (''data'', obj)]"

definition Wrapper_deserialize ::
  "platform \<Rightarrow> Wrapper_class \<Rightarrow> bytes \<Rightarrow> string \<Rightarrow> error + json option" where
  "Wrapper_deserialize P C data version' =
     (case JSON_parse P (decoder_decode P data) of
        Inl e \<Rightarrow> Inl e
      | Inr ret \<Rightarrow>
          if ret = JNull \<or> member ret ''type'' \<noteq> Some (JString (typeName C))
             \<or> \<not> test (constraint C) version'
          then Inr None
          else Inr (nullable (member ret ''data'')))"

text \<open>
  \<open>wrap\<close> is the constructor (\<^verbatim>\<open>wrap\<close> only calls \<^verbatim>\<open>new this(data, version)\<close>):
  it raises on a version outside the constraint, and otherwise gives the instance
  seen through the \<open>Datagram\<close> interface.
\<close>

definition wrap :: "platform \<Rightarrow> Wrapper_class \<Rightarrow> json \<Rightarrow> string \<Rightarrow> error + json Datagram" where
  "wrap P C obj version' =
     (if \<not> test (constraint C) version'
      then Inl (Error (''invalid version string. '' @ version' @ '' not in '' @ range (constraint C)))
      else let data = wrapped (typeName C) version' obj
           in Inr \<lparr>dg_type = typeName C,
                    dg_version = version',
                    dg_serialize = encoder_encode P (JSON_stringify P data),
                    dg_deserialize = Wrapper_deserialize P C\<rparr>)"

definition Wrapper_constructor :: "platform \<Rightarrow> Wrapper_class \<Rightarrow> json DatagramConstructor" where
  "Wrapper_constructor P C =
     \<lparr>proto_type = Some (typeName C), proto_deserialize = Wrapper_deserialize P C\<rparr>"

section \<open>The wire format in the spec's words\<close>

text \<open>
  The spec's varint: each byte holds seven payload bits, least significant group
  first, and the top bit of every byte but the last is set. \<open>length_prefix\<close> is
  the varint of a buffer's length followed by the buffer, and \<open>header_layout\<close>
  is the header of the spec's section 6. \<open>continuation_bits\<close> and
  \<open>varint_value\<close> read a varint back: the shape of its top bits and the number
  its payload bits spell.
\<close>

function spec_varint :: "nat \<Rightarrow> bytes" where
  "spec_varint n =
     (if n < 128 then [of_nat n]
      else of_nat (128 + n mod 128) # spec_varint (n div 128))"
  by pat_completeness auto
termination
  by (relation "measure id") auto

declare spec_varint.simps [simp del]

definition length_prefix :: "bytes \<Rightarrow> bytes" where
  "length_prefix b = spec_varint (length b) @ b"

definition header_layout :: "platform \<Rightarrow> AADMeta \<Rightarrow> bytes" where
  "header_layout P m =
     length_prefix
       (length_prefix (encoder_encode P ''0.1.0'')
        @ length_prefix (encoder_encode P (version m))
        @ length_prefix (encoder_encode P (type m))
        @ length_prefix (nonce m))"

fun continuation_bits :: "bytes \<Rightarrow> bool" where
  "continuation_bits [] = False"
| "continuation_bits [b] = (b < 128)"
| "continuation_bits (b # bs) = (128 \<le> b \<and> continuation_bits bs)"

fun varint_value :: "bytes \<Rightarrow> nat" where
  "varint_value [] = 0"
| "varint_value (b # bs) = unat b mod 128 + 128 * varint_value bs"

section \<open>Stand-ins for the collaborators\<close>

text \<open>
  The closed evaluations below need the collaborators at concrete inputs. The
  stand-ins for the platform agree with it on the inputs they are evaluated on.
  \<open>ascii_encode\<close> and \<open>ascii_decode\<close> are UTF-8 on ASCII text, one byte a
  character. \<open>demo_text\<close> is what \<^verbatim>\<open>JSON.stringify\<close> prints for \<open>demo_doc\<close>,
  the number 1 wrapped by the \<^verbatim>\<open>foo\<close> class, and \<open>demo_text_null\<close> what it
  prints for \<open>demo_doc_null\<close>, a wrapped \<^verbatim>\<open>null\<close>; these are the two
  documents \<open>demo_stringify\<close> is asked for. \<open>demo_parse\<close> reads those two
  texts and \<^verbatim>\<open>null\<close> back and raises on the texts it is given besides, the
  empty text and the control characters 1 to 5, as \<^verbatim>\<open>JSON.parse\<close> does.
\<close>

definition ascii_encode :: "string \<Rightarrow> bytes" where
  "ascii_encode s = map of_char s"

definition ascii_decode :: "bytes \<Rightarrow> string" where
  "ascii_decode bs = map (\<lambda>b. char_of (unat b)) bs"

definition demo_doc :: json where
  "demo_doc = wrapped ''foo'' ''0.1.0'' (JNumber 1)"

definition demo_text :: string where
  \<open>demo_text = ''{"type":"foo","version":"0.1.0","data":1}''\<close>

definition demo_doc_null :: json where
  "demo_doc_null = wrapped ''foo'' ''0.1.0'' JNull"

definition demo_text_null :: string where
  \<open>demo_text_null = ''{"type":"foo","version":"0.1.0","data":null}''\<close>

definition demo_stringify :: "json \<Rightarrow> string" where
  "demo_stringify j =
     (if j = demo_doc then demo_text
      else if j = demo_doc_null then demo_text_null
      else ''null'')"

definition demo_parse :: "string \<Rightarrow> error + json" where
  "demo_parse s =
     (if s = demo_text then Inr demo_doc
      else if s = demo_text_null then Inr demo_doc_null
      else if s = ''null'' then Inr JNull
      else Inl SyntaxError)"

text \<open>
  Modelled from the spec: the version-range matcher, for the constraint
  \<^verbatim>\<open>0.1.*\<close> of the spec's example and of the tests, on version strings of the
  form MAJOR.MINOR.PATCH. The stand-in for the \<^verbatim>\<open>Range\<close> constructor knows this
  one constraint.
\<close>

fun split_dots :: "string \<Rightarrow> string \<Rightarrow> string list" where
  "split_dots acc [] = [rev acc]"
| "split_dots acc (c # cs) =
     (if c = CHR ''.'' then rev acc # split_dots [] cs else split_dots (c # acc) cs)"

definition numeric :: "string \<Rightarrow> bool" where
  "numeric s \<longleftrightarrow>
     s \<noteq> [] \<and> list_all (\<lambda>c. c \<in> set ''0123456789'') s \<and> (s = ''0'' \<or> hd s \<noteq> CHR ''0'')"

definition test_0_1_x :: "string \<Rightarrow> bool" where
  "test_0_1_x v =
     (case split_dots [] v of
        [major, minor, patch] \<Rightarrow> major = ''0'' \<and> minor = ''1'' \<and> numeric patch
      | _ \<Rightarrow> False)"

definition Range_0_1_x :: Range where
  "Range_0_1_x = \<lparr>test = test_0_1_x, range = ''>=0.1.0 <0.2.0-0''\<rparr>"

definition demo_new_Range :: "string \<Rightarrow> error + Range" where
  "demo_new_Range s =
     (if s = ''0.1.*'' then Inr Range_0_1_x else Inl (Fault ''Invalid SemVer Range''))"

definition demo_platform :: platform where
  "demo_platform =
     \<lparr>encoder_encode = ascii_encode,
      decoder_decode = ascii_decode,
      JSON_stringify = demo_stringify,
      JSON_parse = demo_parse,
      new_Range = demo_new_Range\<rparr>"

text \<open>
  The stand-in for a key object has the interface of the cipher: the sealed box is
  the plaintext followed by a 16-byte tag, \<^verbatim>\<open>open\<close> returns \<^verbatim>\<open>null\<close> on a box
  shorter than a tag or with the wrong tag, and both raise on a nonce longer than
  16 bytes. The tag is a checksum, not a MAC.
\<close>

definition demo_tag :: "bytes \<Rightarrow> bytes \<Rightarrow> bytes \<Rightarrow> bytes \<Rightarrow> bytes" where
  "demo_tag k n p a = replicate 16 (sum_list (k @ n @ p @ a))"

definition demo_key :: "bytes \<Rightarrow> ChaCha20Poly1305" where
  "demo_key k =
     \<lparr>seal = (\<lambda>n p a.
         if 16 < length n then Inl (Fault ''ChaCha20Poly1305: incorrect nonce length'')
         else Inr (p @ demo_tag k n p a)),
      open_box = (\<lambda>n s a.
         if 16 < length n then Inl (Fault ''ChaCha20Poly1305: incorrect nonce length'')
         else if length s < 16 then Inr None
         else let p = take (length s - 16) s
              in if drop (length s - 16) s = demo_tag k n p a then Inr (Some p)
                 else Inr None)\<rparr>"

definition demo_box :: TaggedSecretBox where
  "demo_box = \<lparr>key = demo_key (replicate 32 0)\<rparr>"

text \<open>
  The class \<^verbatim>\<open>Example\<close> of the repository's tests: its payload is its
  serialisation, its tag is fixed, and \<^verbatim>\<open>deserialize\<close> accepts the versions in
  \<^verbatim>\<open>0.1.*\<close>.
\<close>

record Example =
  data :: bytes
  ex_version :: string

definition Example_deserialize :: "platform \<Rightarrow> bytes \<Rightarrow> string \<Rightarrow> error + Example option" where
  "Example_deserialize P data' version' =
     (case new_Range P ''0.1.*'' of
        Inl e \<Rightarrow> Inl e
      | Inr r \<Rightarrow>
          if \<not> test r version' then Inr None
          else Inr (Some \<lparr>data = data', ex_version = version'\<rparr>))"

definition Example_datagram :: "platform \<Rightarrow> Example \<Rightarrow> Example Datagram" where
  "Example_datagram P x =
     \<lparr>dg_type = ''ddl://skiff/example'',
      dg_version = ex_version x,
      dg_serialize = data x,
      dg_deserialize = Example_deserialize P\<rparr>"

definition Example_constructor :: "platform \<Rightarrow> Example DatagramConstructor" where
  "Example_constructor P =
     \<lparr>proto_type = Some ''ddl://skiff/example'', proto_deserialize = Example_deserialize P\<rparr>"

definition demo_example :: Example where
  "demo_example = \<lparr>data = [1, 2, 3, 4, 5], ex_version = ''0.1.0''\<rparr>"

definition demo_nonce :: bytes where
  "demo_nonce = replicate 12 0"

text \<open>
  Two datagram types of the plainest kind, as the object literal of the tests: the
  payload is the serialisation and \<^verbatim>\<open>deserialize\<close> hands the bytes back. One is
  tagged \<^verbatim>\<open>foo\<close>, the other \<^verbatim>\<open>bar\<close>. \<open>foo_class\<close> and \<open>bar_class\<close>
  are what \<^verbatim>\<open>Wrapper('foo', '0.1.*')\<close> and \<^verbatim>\<open>Wrapper('bar', '0.1.*')\<close>
  return.
\<close>

definition foo_datagram :: "bytes Datagram" where
  "foo_datagram =
     \<lparr>dg_type = ''foo'', dg_version = ''0.1.0'', dg_serialize = [1, 2, 3, 4, 5],
      dg_deserialize = (\<lambda>d ver. Inr (Some d))\<rparr>"

definition bar_constructor :: "bytes DatagramConstructor" where
  "bar_constructor = \<lparr>proto_type = Some ''bar'', proto_deserialize = (\<lambda>d ver. Inr (Some d))\<rparr>"

definition foo_class :: Wrapper_class where
  "foo_class = \<lparr>typeName = ''foo'', constraint = Range_0_1_x\<rparr>"

definition bar_class :: Wrapper_class where
  "bar_class = \<lparr>typeName = ''bar'', constraint = Range_0_1_x\<rparr>"

text \<open>
  Two envelopes under the key of 32 zero bytes and the nonce of 12 zero bytes, byte
  for byte. \<open>foo_header\<close> is the header for the type \<^verbatim>\<open>foo\<close> and the version
  \<^verbatim>\<open>0.1.0\<close>, with its outer prefix. \<open>foo_wire\<close> carries the payload of
  \<open>foo_datagram\<close>. \<open>null_datagram\<close> is what the \<^verbatim>\<open>foo\<close> class makes of
  \<^verbatim>\<open>wrap(null, '0.1.0')\<close>, and \<open>null_wire\<close> carries it. The last 16 bytes of
  each are the stand-in's tag.
\<close>

definition foo_header :: bytes where
  "foo_header =
     [29,  5, 48, 46, 49, 46, 48,  5, 48, 46, 49, 46, 48,  3, 102, 111, 111,  12]
     @ replicate 12 0"

definition foo_wire :: TypedBytes where
  "foo_wire = \<lparr>buf = foo_header @ [1, 2, 3, 4, 5] @ replicate 16 99\<rparr>"

definition null_datagram :: "json Datagram" where
  "null_datagram =
     \<lparr>dg_type = ''foo'', dg_version = ''0.1.0'',
      dg_serialize = ascii_encode demo_text_null,
      dg_deserialize = Wrapper_deserialize demo_platform foo_class\<rparr>"

definition null_wire :: TypedBytes where
  "null_wire = \<lparr>buf = foo_header @ ascii_encode demo_text_null @ replicate 16 244\<rparr>"

text \<open>
  Three headers, without their outer prefix. \<open>header_valid\<close> has the format
  version \<^verbatim>\<open>0.1.0\<close>, the payload version \<^verbatim>\<open>0.1.0\<close>, the type \<^verbatim>\<open>x\<close> and a
  one-byte nonce. \<open>header_9_9_9\<close> has the format version \<^verbatim>\<open>9.9.9\<close> and a
  12-byte nonce. \<open>header_trailing\<close> is \<open>header_valid\<close> with one more byte.
\<close>

definition header_valid :: bytes where
  "header_valid =
     [5, 48, 46, 49, 46, 48,  5, 48, 46, 49, 46, 48,  1, 120,  1, 7]"

definition header_9_9_9 :: bytes where
  "header_9_9_9 =
     [5, 57, 46, 57, 46, 57,  5, 48, 46, 49, 46, 48,  1, 120,
      12, 0, 0, 0, 0, 0, 0, 0, 0, 0, 0, 0, 0]"

definition header_trailing :: bytes where
  "header_trailing =
     [5, 48, 46, 49, 46, 48,  5, 48, 46, 49, 46, 48,  1, 120,  1, 7,  255]"

section \<open>What the claims ask of the collaborators\<close>

text \<open>
  \<open>text_roundtrip P s\<close>: the decoder reads back what the encoder wrote for \<open>s\<close>.
  The platform's UTF-8 codec does so for well-formed text that does not begin with
  U+FEFF, which the decoder drops as a byte-order mark.
  \<open>opens_what_it_seals K\<close>: the key opens, to the plaintext, every box it sealed
  under the same nonce and associated data.
\<close>

definition text_roundtrip :: "platform \<Rightarrow> string \<Rightarrow> bool" where
  "text_roundtrip P s \<longleftrightarrow> decoder_decode P (encoder_encode P s) = s"

definition opens_what_it_seals :: "ChaCha20Poly1305 \<Rightarrow> bool" where
  "opens_what_it_seals K \<longleftrightarrow>
     (\<forall>n p a s. seal K n p a = Inr s \<longrightarrow> open_box K n s a = Inr (Some p))"

section \<open>The varint package computes the spec's varint\<close>

lemma bit_128: "bit (128::nat) k = (k = 7)"
  using bit_exp_iff [of 7 k, where ?'a = nat] by simp

lemma continuation_byte: "((n::nat) AND 255) OR 128 = 128 + n mod 128"
proof -
  have m: "(255::nat) = mask 8" by (simp add: mask_eq_exp_minus_1)
  have "(n AND 255) OR 128 = take_bit 7 n OR 128"
    unfolding m by (rule bit_eqI) (auto simp add: bit_simps bit_128)
  also have "\<dots> = take_bit 7 n + 128"
    by (rule disjunctive_add_eq_or [symmetric]) (rule bit_eqI, auto simp add: bit_simps bit_128)
  finally show ?thesis by (simp add: take_bit_eq_mod)
qed

lemma high_bits: "((int n) AND (NOT 127) \<noteq> 0) = (128 \<le> n)"
proof -
  have m: "(127::int) = mask 7" by (simp add: mask_eq_exp_minus_1)
  have "(int n) AND (NOT 127) = push_bit 7 (drop_bit 7 (int n))"
    unfolding m by (rule bit_eqI) (auto simp add: bit_simps)
  also have "\<dots> = int (n div 128 * 128)"
    by (simp add: push_bit_eq_mult drop_bit_eq_div zdiv_int)
  finally have "(int n) AND (NOT 127) = int (n div 128 * 128)" .
  then show ?thesis
    by (auto simp add: div_eq_0_iff simp del: of_nat_mult)
qed

lemma high_bits_neg: "((int n) AND (- 128) \<noteq> 0) = (128 \<le> n)"
  using high_bits [of n] by simp

lemma encode_shift_spec: "encode_shift n = spec_varint n"
proof (induction n rule: spec_varint.induct)
  case (1 n)
  show ?case
  proof (cases "n < 128")
    case True
    then show ?thesis
      by (subst encode_shift.simps, subst spec_varint.simps) (simp add: REST_def high_bits_neg)
  next
    case False
    with 1 show ?thesis
      by (subst encode_shift.simps, subst spec_varint.simps)
         (simp add: REST_def MSB_def high_bits_neg continuation_byte drop_bit_eq_div)
  qed
qed

lemma encode_divide_spec: "encode_divide n = spec_varint n"
proof (induction n rule: spec_varint.induct)
  case (1 n)
  show ?case
  proof (cases "INT_31 \<le> n")
    case True
    then have "\<not> n < 128" by (simp add: INT_31_def)
    with 1 True show ?thesis
      by (subst encode_divide.simps, subst spec_varint.simps)
         (simp add: MSB_def continuation_byte)
  next
    case False
    then show ?thesis
      by (subst encode_divide.simps) (simp add: encode_shift_spec)
  qed
qed

lemma varint_encode_spec: "varint_encode n = spec_varint n"
  by (simp add: varint_encode_def encode_divide_spec)

lemma low_seven: "unat ((b::byte) AND 127) = unat b mod 128"
proof -
  have "b AND 127 = take_bit 7 b"
    by (simp add: take_bit_eq_mask mask_eq_exp_minus_1)
  then show ?thesis by (simp add: unsigned_take_bit_eq take_bit_eq_mod unat_mod)
qed

lemma top_bit: "((128::byte) \<le> b) = (128 \<le> unat b)"
  by (simp add: word_le_nat_alt)

lemma unat_byte: "n < 256 \<Longrightarrow> unat (of_nat n :: byte) = n"
  by (simp add: unat_of_nat take_bit_eq_mod)

lemma dbl_exact: "n < 2 ^ 53 \<Longrightarrow> dbl n = n"
  by (simp add: dbl_def)

lemma decode_step:
  "decode_loop res shift (b # bs) =
     (if 49 < shift then Inl RangeError
      else if 128 \<le> unat b
           then decode_loop (dbl (res + unat b mod 128 * 2 ^ shift)) (shift + 7) bs
           else Inr (dbl (res + unat b mod 128 * 2 ^ shift)))"
  by (simp add: REST_def MSB_def low_seven top_bit push_bit_eq_mult Let_def)

declare decode_loop.simps(2) [simp del]

lemma shift_bound:
  assumes "7 dvd shift" "0 < n" "n * 2 ^ shift < (2::nat) ^ 53"
  shows "shift \<le> 49"
proof (rule ccontr)
  assume "\<not> shift \<le> 49"
  with assms(1) have "56 \<le> shift" by presburger
  then have "(2::nat) ^ 56 \<le> 2 ^ shift" by (rule power_increasing) simp
  moreover have "(2::nat) ^ shift \<le> n * 2 ^ shift" using assms(2) by simp
  moreover have "(2::nat) ^ 53 \<le> 2 ^ 56" by simp
  ultimately show False using assms(3) by linarith
qed

lemma decode_loop_spec_varint:
  "7 dvd shift \<Longrightarrow> 0 < n \<or> shift = 0 \<Longrightarrow> res + n * 2 ^ shift < 2 ^ 53 \<Longrightarrow>
   decode_loop res shift (spec_varint n @ rest) = Inr (res + n * 2 ^ shift)"
proof (induction n arbitrary: res shift rule: spec_varint.induct)
  case (1 n)
  have sh: "shift \<le> 49"
  proof (cases "0 < n")
    case True
    with "1.prems" show ?thesis by (intro shift_bound [of shift n]) auto
  next
    case False
    with "1.prems" show ?thesis by simp
  qed
  show ?case
  proof (cases "n < 128")
    case True
    with sh "1.prems" show ?thesis
      by (subst spec_varint.simps) (simp add: decode_step unat_byte dbl_exact)
  next
    case False
    have split: "n * 2 ^ shift = n mod 128 * 2 ^ shift + n div 128 * 2 ^ (shift + 7)"
    proof -
      have g: "(128 * q + r) * 2 ^ shift = r * 2 ^ shift + q * 2 ^ (shift + 7)" for q r :: nat
        by (simp add: algebra_simps power_add)
      show ?thesis using g [of "n div 128" "n mod 128"] by simp
    qed
    have b: "unat (of_nat (128 + n mod 128) :: byte) = 128 + n mod 128"
      by (rule unat_byte) simp
    have b': "unat (128 + of_nat (n mod 128) :: byte) = 128 + n mod 128"
      using b by simp
    have small: "res + n mod 128 * 2 ^ shift < 2 ^ 53"
      using "1.prems"(3) split by simp
    have pos: "0 < n div 128" using False by (simp add: div_greater_zero_iff)
    have "decode_loop (res + n mod 128 * 2 ^ shift) (shift + 7) (spec_varint (n div 128) @ rest)
          = Inr (res + n mod 128 * 2 ^ shift + n div 128 * 2 ^ (shift + 7))"
      using False "1.prems" pos split by (intro "1.IH") auto
    with False sh small show ?thesis
      by (subst spec_varint.simps) (simp add: decode_step b' dbl_exact split)
  qed
qed

lemma varint_decode_encode:
  "n < 2 ^ 53 \<Longrightarrow> varint_decode (varint_encode n @ rest) = Inr n"
  using decode_loop_spec_varint [of 0 n 0 rest]
  by (simp add: varint_decode_def varint_encode_spec)


lemma length_spec_varint: "n < 2 ^ 63 \<Longrightarrow> length (spec_varint n) = encodingLength n"
  apply (subst spec_varint.simps)
  apply (subst spec_varint.simps)
  apply (subst spec_varint.simps)
  apply (subst spec_varint.simps)
  apply (subst spec_varint.simps)
  apply (subst spec_varint.simps)
  apply (subst spec_varint.simps)
  apply (subst spec_varint.simps)
  apply (subst spec_varint.simps)
  apply (simp add: encodingLength_def div_less_iff_less_mult)
  done


lemma total_length: "foldl (\<lambda>t elem. t + length elem) a u8s = a + length (concat u8s)"
  by (induction u8s arbitrary: a) auto

lemma copy_loop:
  "foldl (\<lambda>(ret, index) elem. (set_at ret elem index, index + length elem))
         (pre @ replicate (length (concat u8s) + k) 0, length pre) u8s
   = (pre @ concat u8s @ replicate k 0, length pre + length (concat u8s))"
proof (induction u8s arbitrary: pre)
  case Nil
  then show ?case by simp
next
  case (Cons x xs)
  have "set_at (pre @ replicate (length (concat (x # xs)) + k) 0) x (length pre)
        = (pre @ x) @ replicate (length (concat xs) + k) 0"
    by (simp add: set_at_def replicate_add [symmetric] del: replicate_add)
  then show ?case
    using Cons.IH [of "pre @ x"] by (simp add: add.assoc)
qed

lemma concatUint8Arrays_concat: "concatUint8Arrays u8s = concat u8s"
  using copy_loop [of "[]" u8s 0]
  by (simp add: concatUint8Arrays_def total_length)

lemma varintPrefixed_length_prefix: "varintPrefixed d = length_prefix d"
  by (simp add: varintPrefixed_def length_prefix_def concatUint8Arrays_concat varint_encode_spec)

lemma serialize_layout: "serialize P m = header_layout P m"
  by (simp add: serialize_def header_layout_def varintPrefixed_length_prefix
      concatUint8Arrays_concat METADATA_VERSION_def)

lemma extract_length_prefix:
  assumes "length c < 2 ^ 53"
  shows "extractVarintPrefixed (length_prefix c @ rest) = Inr (c, rest)"
proof -
  have d: "varint_decode (spec_varint (length c) @ c @ rest) = Inr (length c)"
    using varint_decode_encode [OF assms, of "c @ rest"]
    by (simp add: varint_encode_spec)
  have "length c < 2 ^ 63" using assms by (rule less_trans) simp
  then have l: "encodingLength (length c) = length (spec_varint (length c))"
    by (simp add: length_spec_varint)
  show ?thesis
    by (simp add: extractVarintPrefixed_def length_prefix_def d l Let_def)
qed


lemma spec_varint_not_Nil: "spec_varint n \<noteq> []"
  by (subst spec_varint.simps) simp

lemma continuation_bits_spec_varint: "continuation_bits (spec_varint n)"
proof (induction n rule: spec_varint.induct)
  case (1 n)
  show ?case
  proof (cases "n < 128")
    case True
    then have "unat (of_nat n :: byte) < 128" by (simp add: unat_byte)
    then have "(of_nat n :: byte) < 128" by (simp add: word_less_nat_alt)
    with True show ?thesis by (subst spec_varint.simps) simp
  next
    case False
    have "unat (of_nat (128 + n mod 128) :: byte) = 128 + n mod 128"
      by (rule unat_byte) simp
    then have hi: "(128::byte) \<le> of_nat (128 + n mod 128)"
      by (simp only: top_bit)
    obtain b bs where "spec_varint (n div 128) = b # bs"
      using spec_varint_not_Nil [of "n div 128"] by (cases "spec_varint (n div 128)") auto
    with 1 False hi show ?thesis
      by (subst spec_varint.simps) (simp del: of_nat_add)
  qed
qed

lemma varint_value_spec_varint: "varint_value (spec_varint n) = n"
proof (induction n rule: spec_varint.induct)
  case (1 n)
  show ?case
  proof (cases "n < 128")
    case True
    then show ?thesis by (subst spec_varint.simps) (simp add: unat_byte)
  next
    case False
    have "unat (of_nat (128 + n mod 128) :: byte) = 128 + n mod 128"
      by (rule unat_byte) simp
    with 1 False show ?thesis
      by (subst spec_varint.simps) (simp del: of_nat_add)
  qed
qed

section \<open>Parsing a serialised header\<close>

lemma length_prefix_longer: "length b \<le> length (length_prefix b)"
  by (simp add: length_prefix_def)

lemma deserialize_fields:
  assumes v: "decoder_decode P f0 = METADATA_VERSION"
    and l0: "length f0 < 2 ^ 53" and l1: "length f1 < 2 ^ 53"
    and l2: "length f2 < 2 ^ 53" and l3: "length f3 < 2 ^ 53"
  shows "deserialize P (length_prefix f0 @ length_prefix f1 @ length_prefix f2 @ length_prefix f3)
         = Inr (Some \<lparr>version = decoder_decode P f1, type = decoder_decode P f2, nonce = f3\<rparr>)"
proof -
  have e3: "extractVarintPrefixed (length_prefix f3) = Inr (f3, [])"
    using extract_length_prefix [OF l3, of "[]"] by simp
  show ?thesis
    by (simp add: deserialize_def extract_length_prefix [OF l0] extract_length_prefix [OF l1]
        extract_length_prefix [OF l2] e3 v)
qed

lemma unpack_header_layout:
  assumes v: "decoder_decode P (encoder_encode P METADATA_VERSION) = METADATA_VERSION"
    and len: "length (header_layout P m) < 2 ^ 53"
  shows "unpack P (header_layout P m @ rest)
         = Inr \<lparr>metadata = Some \<lparr>version = decoder_decode P (encoder_encode P (version m)),
                                  type = decoder_decode P (encoder_encode P (type m)),
                                  nonce = nonce m\<rparr>,
                 rawMetadata = header_layout P m,
                 content = rest\<rparr>"
proof -
  define f0 where "f0 = encoder_encode P METADATA_VERSION"
  define f1 where "f1 = encoder_encode P (version m)"
  define f2 where "f2 = encoder_encode P (type m)"
  define f3 where "f3 = nonce m"
  define inner where "inner = length_prefix f0 @ length_prefix f1 @ length_prefix f2 @ length_prefix f3"
  have hl: "header_layout P m = length_prefix inner"
    by (simp add: header_layout_def inner_def f0_def f1_def f2_def f3_def METADATA_VERSION_def)
  have li: "length inner < 2 ^ 53"
    using len length_prefix_longer [of inner] unfolding hl by linarith
  have "length f0 \<le> length inner" "length f1 \<le> length inner"
       "length f2 \<le> length inner" "length f3 \<le> length inner"
    using length_prefix_longer [of f0] length_prefix_longer [of f1]
      length_prefix_longer [of f2] length_prefix_longer [of f3]
    by (simp_all add: inner_def)
  with li have l: "length f0 < 2 ^ 53" "length f1 < 2 ^ 53" "length f2 < 2 ^ 53" "length f3 < 2 ^ 53"
    by linarith+
  have v': "decoder_decode P f0 = METADATA_VERSION"
    using v by (simp add: f0_def)
  have d: "deserialize P inner
           = Inr (Some \<lparr>version = decoder_decode P f1, type = decoder_decode P f2, nonce = f3\<rparr>)"
    unfolding inner_def using v' l by (rule deserialize_fields)
  have e: "extractVarintPrefixed (length_prefix inner @ rest) = Inr (inner, rest)"
    using li by (rule extract_length_prefix)
  have e0: "extractVarintPrefixed inner
            = Inr (f0, length_prefix f1 @ length_prefix f2 @ length_prefix f3)"
    unfolding inner_def using l(1) by (rule extract_length_prefix)
  show ?thesis
    unfolding hl
    by (simp add: unpack_def e d e0 v' varintPrefixed_length_prefix Let_def
        f1_def f2_def f3_def)
qed

lemma deserialize_trailing:
  assumes v: "decoder_decode P f0 = METADATA_VERSION"
    and l0: "length f0 < 2 ^ 53" and l1: "length f1 < 2 ^ 53"
    and l2: "length f2 < 2 ^ 53" and l3: "length f3 < 2 ^ 53"
    and x: "extra \<noteq> []"
  shows "deserialize P (length_prefix f0 @ length_prefix f1 @ length_prefix f2
                        @ length_prefix f3 @ extra)
         = Inl (Error ''unexpected additional content in header'')"
  by (simp add: deserialize_def extract_length_prefix [OF l0] extract_length_prefix [OF l1]
      extract_length_prefix [OF l2] extract_length_prefix [OF l3] v x)

lemma unpack_trailing:
  assumes b: "bs = length_prefix (length_prefix f0 @ length_prefix f1 @ length_prefix f2
                                  @ length_prefix f3 @ extra) @ rest"
    and v: "decoder_decode P f0 = METADATA_VERSION"
    and x: "extra \<noteq> []"
    and len: "length bs < 2 ^ 53"
  shows "unpack P bs = Inl (Error ''unexpected additional content in header'')"
proof -
  define inner where
    "inner = length_prefix f0 @ length_prefix f1 @ length_prefix f2 @ length_prefix f3 @ extra"
  have li: "length inner < 2 ^ 53"
    using len length_prefix_longer [of inner] unfolding b inner_def by simp
  have "length f0 \<le> length inner" "length f1 \<le> length inner"
       "length f2 \<le> length inner" "length f3 \<le> length inner"
    using length_prefix_longer [of f0] length_prefix_longer [of f1]
      length_prefix_longer [of f2] length_prefix_longer [of f3]
    by (simp_all add: inner_def)
  with li have l: "length f0 < 2 ^ 53" "length f1 < 2 ^ 53" "length f2 < 2 ^ 53" "length f3 < 2 ^ 53"
    by linarith+
  have d: "deserialize P inner = Inl (Error ''unexpected additional content in header'')"
    unfolding inner_def using v l x by (rule deserialize_trailing)
  have e: "extractVarintPrefixed (length_prefix inner @ rest) = Inr (inner, rest)"
    using li by (rule extract_length_prefix)
  show ?thesis
    unfolding b inner_def [symmetric]
    by (simp add: unpack_def e d Let_def)
qed

lemma encrypt_buf:
  assumes "encrypt P box v n = Inr wire"
  shows "\<exists>sealed. seal (key box) n (dg_serialize v)
                    (header_layout P \<lparr>version = dg_version v, type = dg_type v, nonce = n\<rparr>)
                  = Inr sealed
           \<and> buf wire = header_layout P \<lparr>version = dg_version v, type = dg_type v, nonce = n\<rparr>
                         @ sealed"
  using assms
  by (auto simp add: encrypt_def Let_def serialize_layout concatUint8Arrays_concat
      split: sum.splits)

lemma unpack_encrypt:
  assumes enc: "encrypt P box v n = Inr wire"
    and len: "length (buf wire) < 2 ^ 53"
    and t0: "text_roundtrip P METADATA_VERSION"
    and t1: "text_roundtrip P (dg_type v)"
    and t2: "text_roundtrip P (dg_version v)"
  shows "\<exists>sealed.
           seal (key box) n (dg_serialize v)
             (header_layout P \<lparr>version = dg_version v, type = dg_type v, nonce = n\<rparr>) = Inr sealed
           \<and> unpack P (buf wire)
               = Inr \<lparr>metadata = Some \<lparr>version = dg_version v, type = dg_type v, nonce = n\<rparr>,
                       rawMetadata = header_layout P
                                       \<lparr>version = dg_version v, type = dg_type v, nonce = n\<rparr>,
                       content = sealed\<rparr>"
proof -
  let ?m = "\<lparr>version = dg_version v, type = dg_type v, nonce = n\<rparr>"
  from encrypt_buf [OF enc] obtain sealed
    where s: "seal (key box) n (dg_serialize v) (header_layout P ?m) = Inr sealed"
      and b: "buf wire = header_layout P ?m @ sealed"
    by blast
  have l: "length (header_layout P ?m) < 2 ^ 53"
    using len b by simp
  have v: "decoder_decode P (encoder_encode P METADATA_VERSION) = METADATA_VERSION"
    using t0 by (simp add: text_roundtrip_def)
  have "unpack P (buf wire)
        = Inr \<lparr>metadata = Some ?m, rawMetadata = header_layout P ?m, content = sealed\<rparr>"
    unfolding b using unpack_header_layout [OF v l, of sealed] t1 t2
    by (simp add: text_roundtrip_def)
  with s show ?thesis by blast
qed

lemma unpack_metadata:
  assumes "unpack P bs = Inr u"
  shows "metadata u \<noteq> None"
proof -
  from assms obtain header rest where e: "extractVarintPrefixed bs = Inr (header, rest)"
    by (auto simp add: unpack_def split: sum.splits)
  from assms e obtain md where d: "deserialize P header = Inr md" and m: "metadata u = md"
    by (auto simp add: unpack_def Let_def split: sum.splits if_splits)
  from assms e d obtain c0 rest' where e0: "extractVarintPrefixed header = Inr (c0, rest')"
    and v: "decoder_decode P c0 = METADATA_VERSION"
    by (auto simp add: unpack_def Let_def split: sum.splits if_splits)
  from d e0 v have "md \<noteq> None"
    by (auto simp add: deserialize_def split: sum.splits if_splits)
  with m show ?thesis by simp
qed


section \<open>The stand-ins meet what is asked of them\<close>

lemma unat_of_char: "unat (of_char c :: byte) = of_char c"
proof -
  have "(of_char c :: byte) = of_nat (of_char c)"
    by (simp add: of_nat_of_char)
  then have "unat (of_char c :: byte) = of_char c mod 256"
    by (simp only: unat_of_nat) (simp add: take_bit_eq_mod)
  then show ?thesis by simp
qed

lemma ascii_roundtrip: "text_roundtrip demo_platform s"
  by (induction s)
    (simp_all add: text_roundtrip_def demo_platform_def ascii_encode_def ascii_decode_def
      unat_of_char)

lemma demo_key_correct: "opens_what_it_seals (demo_key k)"
  by (auto simp add: opens_what_it_seals_def demo_key_def demo_tag_def split: if_splits)


lemmas demo_eval = demo_platform_def ascii_encode_def ascii_decode_def demo_box_def demo_key_def
  demo_tag_def Example_datagram_def Example_constructor_def Example_deserialize_def
  demo_new_Range_def Range_0_1_x_def test_0_1_x_def numeric_def demo_example_def

lemmas varint_eval = extractVarintPrefixed_def varint_decode_def decode_step dbl_def
  encodingLength_def

lemma demo_header: "serialize demo_platform \<lparr>version = ''0.1.0'', type = ''foo'', nonce = demo_nonce\<rparr> = foo_header"
  by (simp add: serialize_layout header_layout_def length_prefix_def spec_varint.simps
      demo_platform_def ascii_encode_def demo_nonce_def foo_header_def)

lemma demo_nonce_facts: "length demo_nonce = 12" "sum_list demo_nonce = 0"
  by (simp_all add: demo_nonce_def sum_list_replicate)

lemma encrypt_foo: "encrypt demo_platform demo_box foo_datagram demo_nonce = Inr foo_wire"
  by (simp add: encrypt_def foo_datagram_def demo_header Let_def concatUint8Arrays_concat
      foo_wire_def demo_box_def demo_key_def demo_tag_def demo_nonce_facts foo_header_def sum_list_replicate)

lemma wrap_null: "wrap demo_platform foo_class JNull ''0.1.0'' = Inr null_datagram"
proof -
  have t: "test (constraint foo_class) ''0.1.0''"
    by (simp add: foo_class_def Range_0_1_x_def test_0_1_x_def numeric_def)
  have s: "JSON_stringify demo_platform (wrapped ''foo'' ''0.1.0'' JNull) = demo_text_null"
    by (simp add: demo_platform_def demo_stringify_def demo_doc_def demo_doc_null_def
        foo_class_def wrapped_def)
  have n: "typeName foo_class = ''foo''"
    by (simp add: foo_class_def)
  have e: "encoder_encode demo_platform = ascii_encode"
    by (simp add: demo_platform_def)
  show ?thesis
    by (simp add: wrap_def t Let_def s n e null_datagram_def)
qed

lemma encrypt_null: "encrypt demo_platform demo_box null_datagram demo_nonce = Inr null_wire"
  by (simp add: encrypt_def null_datagram_def demo_header Let_def concatUint8Arrays_concat
      null_wire_def demo_box_def demo_key_def demo_tag_def demo_nonce_facts foo_header_def sum_list_replicate
      ascii_encode_def demo_text_null_def)

lemma unpack_foo_header:
  "unpack demo_platform (foo_header @ sealed)
   = Inr \<lparr>metadata = Some \<lparr>version = ''0.1.0'', type = ''foo'', nonce = demo_nonce\<rparr>,
           rawMetadata = foo_header, content = sealed\<rparr>"
proof -
  let ?m = "\<lparr>version = ''0.1.0'', type = ''foo'', nonce = demo_nonce\<rparr>"
  have h: "header_layout demo_platform ?m = foo_header"
    using demo_header by (simp add: serialize_layout)
  have v: "decoder_decode demo_platform (encoder_encode demo_platform METADATA_VERSION)
           = METADATA_VERSION"
    using ascii_roundtrip [of METADATA_VERSION] by (simp add: text_roundtrip_def)
  have l: "length (header_layout demo_platform ?m) < 2 ^ 53"
    by (simp add: h foo_header_def)
  have r: "decoder_decode demo_platform (encoder_encode demo_platform s) = s" for s
    using ascii_roundtrip [of s] by (simp add: text_roundtrip_def)
  show ?thesis
    using unpack_header_layout [OF v l, of sealed] by (simp add: h r)
qed

lemmas demo_open = demo_box_def demo_key_def demo_tag_def demo_nonce_facts foo_header_def
  sum_list_replicate Let_def

section \<open>The claims\<close>

subsection \<open>C1: encrypt, then decrypt\<close>

text \<open>
  The specification has the round trip return, for every datagram, a value that is
  not \<^verbatim>\<open>null\<close>. \<^verbatim>\<open>decrypt\<close> returns what the type's \<^verbatim>\<open>deserialize\<close>
  returns, and a Wrapper class returns the inner value alone: for the datagram that
  \<^verbatim>\<open>wrap(null, '0.1.0')\<close> makes, the round trip returns \<^verbatim>\<open>null\<close>.
\<close>

theorem roundtrip_of_wrapped_null:
  "wrap demo_platform foo_class JNull ''0.1.0'' = Inr null_datagram
   \<and> encrypt demo_platform demo_box null_datagram demo_nonce = Inr null_wire
   \<and> decrypt demo_platform demo_box (Wrapper_constructor demo_platform foo_class) null_wire
       = Inr None"
proof -
  have o: "open_box (key demo_box) demo_nonce (ascii_encode demo_text_null @ replicate 16 244)
             foo_header = Inr (Some (ascii_encode demo_text_null))"
    by (simp add: demo_open ascii_encode_def demo_text_null_def)
  have r: "decoder_decode demo_platform (ascii_encode demo_text_null) = demo_text_null"
    using ascii_roundtrip [of demo_text_null] by (simp add: text_roundtrip_def demo_platform_def)
  have p: "JSON_parse demo_platform demo_text_null = Inr demo_doc_null"
    by (simp add: demo_platform_def demo_parse_def demo_text_def demo_text_null_def)
  have t: "test (constraint foo_class) ''0.1.0''"
    by (simp add: foo_class_def Range_0_1_x_def test_0_1_x_def numeric_def)
  have d: "Wrapper_deserialize demo_platform foo_class (ascii_encode demo_text_null) ''0.1.0''
           = Inr None"
    by (simp add: Wrapper_deserialize_def r p t) (simp add: demo_doc_null_def wrapped_def foo_class_def)
  have "decrypt demo_platform demo_box (Wrapper_constructor demo_platform foo_class) null_wire
        = Inr None"
    by (simp add: decrypt_def null_wire_def unpack_foo_header o Wrapper_constructor_def d)
  then show ?thesis
    using wrap_null encrypt_null by simp
qed

text \<open>
  C1, as the code has it. For every datagram \<open>v\<close> and every key that opens what
  it seals, decrypting what \<open>encrypt\<close> produced for \<open>v\<close>, with \<open>v\<close>'s own
  type, returns exactly what that type's \<^verbatim>\<open>deserialize\<close> returns for \<open>v\<close>'s
  serialisation and version: the value equal to \<open>v\<close> when \<^verbatim>\<open>deserialize\<close>
  reproduces it, and \<^verbatim>\<open>null\<close> when \<^verbatim>\<open>deserialize\<close> returns \<^verbatim>\<open>null\<close>. The
  envelope carries \<open>v\<close>'s type tag and version. \<open>v\<close>'s own type is one whose
  prototype reports \<open>v\<close>'s tag; the tag and the version are strings that the text
  codec reads back as written; the buffer is a typed array.
\<close>

theorem encrypt_decrypt_roundtrip:
  assumes enc: "encrypt P box v n = Inr wire"
    and len: "length (buf wire) < 2 ^ 53"
    and t0: "text_roundtrip P METADATA_VERSION"
    and t1: "text_roundtrip P (dg_type v)"
    and t2: "text_roundtrip P (dg_version v)"
    and aead: "opens_what_it_seals (key box)"
    and tag: "proto_type cls = Some (dg_type v)"
  shows "decrypt P box cls wire = proto_deserialize cls (dg_serialize v) (dg_version v)
         \<and> inspect P wire = Inr (Some \<lparr>version = dg_version v, type = dg_type v, nonce = n\<rparr>)"
proof -
  let ?m = "\<lparr>version = dg_version v, type = dg_type v, nonce = n\<rparr>"
  from unpack_encrypt [OF enc len t0 t1 t2] obtain sealed
    where s: "seal (key box) n (dg_serialize v) (header_layout P ?m) = Inr sealed"
      and u: "unpack P (buf wire)
              = Inr \<lparr>metadata = Some ?m, rawMetadata = header_layout P ?m, content = sealed\<rparr>"
    by blast
  from aead s have o: "open_box (key box) n sealed (header_layout P ?m) = Inr (Some (dg_serialize v))"
    unfolding opens_what_it_seals_def by blast
  have "decrypt P box cls wire = proto_deserialize cls (dg_serialize v) (dg_version v)"
    by (cases "proto_deserialize cls (dg_serialize v) (dg_version v)")
      (simp_all add: decrypt_def u o tag)
  moreover have "inspect P wire = Inr (Some ?m)"
    by (simp add: inspect_def u)
  ultimately show ?thesis by simp
qed

text \<open>
  The scenario of the tests: the \<^verbatim>\<open>Example\<close> class with payload
  \<^verbatim>\<open>[1,2,3,4,5]\<close> and version \<^verbatim>\<open>0.1.0\<close>, a key of 32 zero bytes. The value
  returned is the one that was encrypted.
\<close>

theorem encrypt_decrypt_roundtrip_witness:
  "\<exists>wire. encrypt demo_platform demo_box (Example_datagram demo_platform demo_example) demo_nonce
            = Inr wire
         \<and> length (buf wire) < 2 ^ 53
         \<and> decrypt demo_platform demo_box (Example_constructor demo_platform) wire
            = Inr (Some demo_example)
         \<and> inspect demo_platform wire
            = Inr (Some \<lparr>version = ''0.1.0'', type = ''ddl://skiff/example'', nonce = demo_nonce\<rparr>)"
proof -
  let ?v = "Example_datagram demo_platform demo_example"
  obtain wire where e: "encrypt demo_platform demo_box ?v demo_nonce = Inr wire"
    by (simp add: encrypt_def demo_eval demo_nonce_def Let_def)
  have l: "length (buf wire) < 2 ^ 53"
    using e
    by (auto simp add: encrypt_def serialize_layout concatUint8Arrays_concat header_layout_def
        length_prefix_def spec_varint.simps demo_eval demo_nonce_def)
  have aead: "opens_what_it_seals (key demo_box)"
    by (simp add: demo_box_def demo_key_correct)
  have tag: "proto_type (Example_constructor demo_platform) = Some (dg_type ?v)"
    by (simp add: Example_constructor_def Example_datagram_def)
  have own: "proto_deserialize (Example_constructor demo_platform) (dg_serialize ?v) (dg_version ?v)
             = Inr (Some demo_example)"
    by (simp add: demo_eval)
  show ?thesis
    using encrypt_decrypt_roundtrip [OF e l ascii_roundtrip ascii_roundtrip ascii_roundtrip
        aead tag] own e l
    by (auto simp add: Example_datagram_def demo_example_def)
qed

subsection \<open>C2: decrypt on a header that does not parse\<close>

text \<open>
  The specification has \<^verbatim>\<open>decrypt\<close> return \<^verbatim>\<open>null\<close> whenever the header
  fails to decode. The code has no handler around \<^verbatim>\<open>AADMeta.unpack\<close>, which
  raises: on the format version \<^verbatim>\<open>9.9.9\<close>, on a byte left over inside the header,
  and on a length prefix that never ends.
\<close>

theorem decrypt_raises_on_bad_header:
  "decrypt demo_platform demo_box (Example_constructor demo_platform)
     \<lparr>buf = 27 # header_9_9_9 @ [1, 2, 3]\<rparr>
   = Inl (Error ''unrecognized metadata version'')
   \<and> decrypt demo_platform demo_box (Example_constructor demo_platform)
       \<lparr>buf = 17 # header_trailing @ [1, 2, 3]\<rparr>
     = Inl (Error ''unexpected additional content in header'')
   \<and> decrypt demo_platform demo_box (Example_constructor demo_platform) \<lparr>buf = [128]\<rparr>
     = Inl RangeError"
  by (simp add: decrypt_def unpack_def deserialize_def varint_eval header_9_9_9_def
      header_trailing_def demo_platform_def ascii_decode_def char_of_eq_iff
      METADATA_VERSION_def Let_def)

text \<open>
  C2, as the code has it. For every input buffer on which header decoding fails,
  \<^verbatim>\<open>decrypt\<close> returns nothing: the fault that \<^verbatim>\<open>AADMeta.unpack\<close> raised
  reaches the caller. That is the decoder's \<^verbatim>\<open>RangeError\<close> for a length prefix
  that cannot be decoded, \<^verbatim>\<open>unrecognized metadata version\<close> for a format
  version other than \<^verbatim>\<open>0.1.0\<close>, and
  \<^verbatim>\<open>unexpected additional content in header\<close> for bytes after the four fields.
\<close>

theorem decrypt_propagates_header_fault:
  "(unpack P (buf tb) = Inl e \<longrightarrow> decrypt P box cls tb = Inl e)
   \<and> (varint_decode (buf tb) = Inl e \<longrightarrow> decrypt P box cls tb = Inl e)
   \<and> (extractVarintPrefixed (buf tb) = Inr (header, rest)
        \<and> extractVarintPrefixed header = Inr (c0, rest')
        \<and> decoder_decode P c0 \<noteq> METADATA_VERSION
       \<longrightarrow> decrypt P box cls tb = Inl (Error ''unrecognized metadata version''))
   \<and> (buf tb = length_prefix (length_prefix f0 @ length_prefix f1 @ length_prefix f2
                               @ length_prefix f3 @ extra) @ sealed
        \<and> decoder_decode P f0 = METADATA_VERSION \<and> extra \<noteq> [] \<and> length (buf tb) < 2 ^ 53
       \<longrightarrow> decrypt P box cls tb = Inl (Error ''unexpected additional content in header''))"
proof (intro conjI impI)
  assume "unpack P (buf tb) = Inl e"
  then show "decrypt P box cls tb = Inl e"
    by (simp add: decrypt_def)
next
  assume "varint_decode (buf tb) = Inl e"
  then have "unpack P (buf tb) = Inl e"
    by (simp add: unpack_def extractVarintPrefixed_def)
  then show "decrypt P box cls tb = Inl e"
    by (simp add: decrypt_def)
next
  assume "extractVarintPrefixed (buf tb) = Inr (header, rest)
        \<and> extractVarintPrefixed header = Inr (c0, rest')
        \<and> decoder_decode P c0 \<noteq> METADATA_VERSION"
  then have "unpack P (buf tb) = Inl (Error ''unrecognized metadata version'')"
    by (simp add: unpack_def deserialize_def Let_def)
  then show "decrypt P box cls tb = Inl (Error ''unrecognized metadata version'')"
    by (simp add: decrypt_def)
next
  assume a: "buf tb = length_prefix (length_prefix f0 @ length_prefix f1 @ length_prefix f2
                               @ length_prefix f3 @ extra) @ sealed
        \<and> decoder_decode P f0 = METADATA_VERSION \<and> extra \<noteq> [] \<and> length (buf tb) < 2 ^ 53"
  then have "unpack P (buf tb) = Inl (Error ''unexpected additional content in header'')"
    using unpack_trailing [of "buf tb" f0 f1 f2 f3 extra sealed P] by blast
  then show "decrypt P box cls tb = Inl (Error ''unexpected additional content in header'')"
    by (simp add: decrypt_def)
qed

theorem decrypt_propagates_header_fault_witness:
  "unpack demo_platform [] = Inl RangeError
   \<and> decrypt demo_platform demo_box bar_constructor \<lparr>buf = []\<rparr> = Inl RangeError
   \<and> varint_decode [255, 255] = Inl RangeError
   \<and> decrypt demo_platform demo_box bar_constructor \<lparr>buf = [255, 255]\<rparr> = Inl RangeError
   \<and> extractVarintPrefixed [2, 1, 65, 9] = Inr ([1, 65], [9])
   \<and> extractVarintPrefixed [1, 65] = Inr ([65], [])
   \<and> decoder_decode demo_platform [65] = ''A''
   \<and> decrypt demo_platform demo_box bar_constructor \<lparr>buf = [2, 1, 65, 9]\<rparr>
       = Inl (Error ''unrecognized metadata version'')
   \<and> 17 # header_trailing @ [9]
       = length_prefix (length_prefix (ascii_encode ''0.1.0'') @ length_prefix (ascii_encode ''0.1.0'')
                        @ length_prefix (ascii_encode ''x'') @ length_prefix [7] @ [255]) @ [9]
   \<and> decrypt demo_platform demo_box bar_constructor \<lparr>buf = 17 # header_trailing @ [9]\<rparr>
       = Inl (Error ''unexpected additional content in header'')"
proof -
  have u: "unpack demo_platform [] = Inl RangeError"
    by (simp add: unpack_def varint_eval)
  have v: "varint_decode [255, 255] = Inl RangeError"
    by (simp add: varint_eval)
  have e1: "extractVarintPrefixed [2, 1, 65, 9] = Inr ([1, 65], [9])"
    and e2: "extractVarintPrefixed [1, 65] = Inr ([65], [])"
    by (simp_all add: varint_eval)
  have c: "decoder_decode demo_platform [65] = ''A''"
    by (simp add: demo_platform_def ascii_decode_def char_of_eq_iff)
  have t: "17 # header_trailing @ [9]
       = length_prefix (length_prefix (ascii_encode ''0.1.0'') @ length_prefix (ascii_encode ''0.1.0'')
                        @ length_prefix (ascii_encode ''x'') @ length_prefix [7] @ [255]) @ [9]"
    by (simp add: header_trailing_def length_prefix_def spec_varint.simps ascii_encode_def)
  have m: "decoder_decode demo_platform (ascii_encode ''0.1.0'') = METADATA_VERSION"
    using ascii_roundtrip [of "''0.1.0''"]
    by (simp add: text_roundtrip_def demo_platform_def METADATA_VERSION_def)
  have l: "length (17 # header_trailing @ [9]) < 2 ^ 53"
    by (simp add: header_trailing_def)
  show ?thesis
    using u v e1 e2 c t
      decrypt_propagates_header_fault
        [of demo_platform "\<lparr>buf = []\<rparr>" RangeError demo_box bar_constructor]
      decrypt_propagates_header_fault
        [of demo_platform "\<lparr>buf = [255, 255]\<rparr>" RangeError demo_box bar_constructor]
      decrypt_propagates_header_fault
        [of demo_platform "\<lparr>buf = [2, 1, 65, 9]\<rparr>" _ demo_box bar_constructor
          "[1, 65]" "[9]" "[65]" "[]"]
      decrypt_propagates_header_fault
        [of demo_platform "\<lparr>buf = 17 # header_trailing @ [9]\<rparr>" _ demo_box bar_constructor
          _ _ _ _ "ascii_encode ''0.1.0''" "ascii_encode ''0.1.0''" "ascii_encode ''x''" "[7]"
          "[255]" "[9]"]
      m l
    by (simp add: METADATA_VERSION_def)
qed

subsection \<open>C3: inspect\<close>

text \<open>
  The specification has \<^verbatim>\<open>inspect\<close> return \<^verbatim>\<open>null\<close> on a buffer that is not
  an envelope. On the three bytes \<^verbatim>\<open>[1,2,3]\<close> and on the empty buffer the code
  raises instead.
\<close>

theorem inspect_raises_on_other_bytes:
  "inspect demo_platform \<lparr>buf = [1, 2, 3]\<rparr> = Inl (Error ''unrecognized metadata version'')
   \<and> inspect demo_platform \<lparr>buf = []\<rparr> = Inl RangeError"
  by (simp add: inspect_def unpack_def deserialize_def varint_eval demo_platform_def
      ascii_decode_def METADATA_VERSION_def Let_def)

text \<open>
  C3, as the code has it. For every buffer that \<^verbatim>\<open>encrypt\<close> produced,
  \<^verbatim>\<open>inspect\<close> returns the type tag and the version the envelope was built with
  (and the nonce); it takes no key. For every buffer on which header decoding
  fails, \<^verbatim>\<open>inspect\<close> raises the fault that \<^verbatim>\<open>AADMeta.unpack\<close> raised; it
  returns \<^verbatim>\<open>null\<close> on no buffer at all.
\<close>

theorem inspect_reads_header:
  "(encrypt P box v n = Inr wire \<and> length (buf wire) < 2 ^ 53
      \<and> text_roundtrip P METADATA_VERSION \<and> text_roundtrip P (dg_type v)
      \<and> text_roundtrip P (dg_version v)
    \<longrightarrow> inspect P wire = Inr (Some \<lparr>version = dg_version v, type = dg_type v, nonce = n\<rparr>))
   \<and> (unpack P (buf tb) = Inl e \<longrightarrow> inspect P tb = Inl e)
   \<and> inspect P tb \<noteq> Inr None"
proof (intro conjI impI)
  assume a: "encrypt P box v n = Inr wire \<and> length (buf wire) < 2 ^ 53
      \<and> text_roundtrip P METADATA_VERSION \<and> text_roundtrip P (dg_type v)
      \<and> text_roundtrip P (dg_version v)"
  then obtain sealed where
    "unpack P (buf wire)
       = Inr \<lparr>metadata = Some \<lparr>version = dg_version v, type = dg_type v, nonce = n\<rparr>,
               rawMetadata = header_layout P \<lparr>version = dg_version v, type = dg_type v, nonce = n\<rparr>,
               content = sealed\<rparr>"
    using unpack_encrypt [of P box v n wire] by blast
  then show "inspect P wire = Inr (Some \<lparr>version = dg_version v, type = dg_type v, nonce = n\<rparr>)"
    by (simp add: inspect_def)
next
  assume "unpack P (buf tb) = Inl e"
  then show "inspect P tb = Inl e" by (simp add: inspect_def)
next
  show "inspect P tb \<noteq> Inr None"
    using unpack_metadata [of P "buf tb"]
    by (auto simp add: inspect_def split: sum.splits)
qed

theorem inspect_reads_header_witness:
  "(\<exists>wire. encrypt demo_platform demo_box foo_datagram demo_nonce = Inr wire
          \<and> length (buf wire) < 2 ^ 53
          \<and> inspect demo_platform wire
             = Inr (Some \<lparr>version = ''0.1.0'', type = ''foo'', nonce = demo_nonce\<rparr>))
   \<and> unpack demo_platform (buf \<lparr>buf = [128]\<rparr>) = Inl RangeError
   \<and> inspect demo_platform \<lparr>buf = [128]\<rparr> = Inl RangeError"
proof -
  obtain wire where e: "encrypt demo_platform demo_box foo_datagram demo_nonce = Inr wire"
    by (simp add: encrypt_def demo_eval demo_nonce_def foo_datagram_def Let_def)
  have l: "length (buf wire) < 2 ^ 53"
    using e
    by (auto simp add: encrypt_def serialize_layout concatUint8Arrays_concat header_layout_def
        length_prefix_def spec_varint.simps demo_eval demo_nonce_def foo_datagram_def)
  have u: "unpack demo_platform (buf \<lparr>buf = [128]\<rparr>) = Inl RangeError"
    by (simp add: unpack_def varint_decode_def decode_step dbl_def extractVarintPrefixed_def)
  show ?thesis
    using inspect_reads_header
      [of demo_platform demo_box foo_datagram demo_nonce wire "\<lparr>buf = [128]\<rparr>" RangeError]
      e l u ascii_roundtrip
    by (auto simp add: foo_datagram_def)
qed

subsection \<open>C4: the format-version gate\<close>

text \<open>
  C4. For every buffer whose decoded format-version field is not exactly
  \<^verbatim>\<open>0.1.0\<close>, \<^verbatim>\<open>AADMeta.unpack\<close> fails with the error
  \<^verbatim>\<open>unrecognized metadata version\<close>, whatever follows the field inside the header
  and whatever follows the header; and a buffer that \<^verbatim>\<open>unpack\<close> accepts has the
  format version \<^verbatim>\<open>0.1.0\<close>.
\<close>

theorem unpack_format_version_gate:
  "(extractVarintPrefixed buffer = Inr (header, rest)
      \<and> extractVarintPrefixed header = Inr (c0, rest')
      \<and> decoder_decode P c0 \<noteq> METADATA_VERSION
    \<longrightarrow> unpack P buffer = Inl (Error ''unrecognized metadata version''))
   \<and> (unpack P buffer = Inr u
    \<longrightarrow> (\<exists>header rest c0 rest'.
           extractVarintPrefixed buffer = Inr (header, rest)
           \<and> extractVarintPrefixed header = Inr (c0, rest')
           \<and> decoder_decode P c0 = METADATA_VERSION))"
proof (intro conjI impI)
  assume "extractVarintPrefixed buffer = Inr (header, rest)
      \<and> extractVarintPrefixed header = Inr (c0, rest')
      \<and> decoder_decode P c0 \<noteq> METADATA_VERSION"
  then show "unpack P buffer = Inl (Error ''unrecognized metadata version'')"
    by (simp add: unpack_def deserialize_def Let_def)
next
  assume "unpack P buffer = Inr u"
  then show "\<exists>header rest c0 rest'.
           extractVarintPrefixed buffer = Inr (header, rest)
           \<and> extractVarintPrefixed header = Inr (c0, rest')
           \<and> decoder_decode P c0 = METADATA_VERSION"
    by (auto simp add: unpack_def Let_def split: sum.splits if_splits)
qed

theorem unpack_format_version_gate_witness:
  "extractVarintPrefixed (27 # header_9_9_9 @ [1, 2, 3]) = Inr (header_9_9_9, [1, 2, 3])
   \<and> extractVarintPrefixed header_9_9_9 = Inr ([57, 46, 57, 46, 57], drop 6 header_9_9_9)
   \<and> decoder_decode demo_platform [57, 46, 57, 46, 57] = ''9.9.9''
   \<and> unpack demo_platform (27 # header_9_9_9 @ [1, 2, 3])
       = Inl (Error ''unrecognized metadata version'')
   \<and> unpack demo_platform (16 # header_valid @ [1, 2, 3])
       = Inr \<lparr>metadata = Some \<lparr>version = ''0.1.0'', type = ''x'', nonce = [7]\<rparr>,
               rawMetadata = 16 # header_valid, content = [1, 2, 3]\<rparr>
   \<and> (\<exists>rest rest'.
         extractVarintPrefixed (16 # header_valid @ [1, 2, 3]) = Inr (header_valid, rest)
         \<and> extractVarintPrefixed header_valid = Inr ([48, 46, 49, 46, 48], rest')
         \<and> decoder_decode demo_platform [48, 46, 49, 46, 48] = METADATA_VERSION)"
proof -
  have a: "extractVarintPrefixed (27 # header_9_9_9 @ [1, 2, 3]) = Inr (header_9_9_9, [1, 2, 3])"
    by (simp add: varint_eval header_9_9_9_def)
  have b: "extractVarintPrefixed header_9_9_9 = Inr ([57, 46, 57, 46, 57], drop 6 header_9_9_9)"
    by (simp add: varint_eval header_9_9_9_def)
  have c: "decoder_decode demo_platform [57, 46, 57, 46, 57] = ''9.9.9''"
    by (simp add: demo_platform_def ascii_decode_def char_of_eq_iff)
  have d: "decoder_decode demo_platform [57, 46, 57, 46, 57] \<noteq> METADATA_VERSION"
    by (simp add: c METADATA_VERSION_def)
  have u: "unpack demo_platform (16 # header_valid @ [1, 2, 3])
           = Inr \<lparr>metadata = Some \<lparr>version = ''0.1.0'', type = ''x'', nonce = [7]\<rparr>,
                   rawMetadata = 16 # header_valid, content = [1, 2, 3]\<rparr>"
    by (simp add: unpack_def deserialize_def varint_eval header_valid_def demo_platform_def
        ascii_decode_def char_of_eq_iff METADATA_VERSION_def Let_def
        varintPrefixed_length_prefix length_prefix_def spec_varint.simps)
  have e: "extractVarintPrefixed (16 # header_valid @ [1, 2, 3]) = Inr (header_valid, [1, 2, 3])"
    by (simp add: varint_eval header_valid_def)
  have f: "extractVarintPrefixed header_valid = Inr ([48, 46, 49, 46, 48], drop 6 header_valid)"
    by (simp add: varint_eval header_valid_def)
  show ?thesis
    using unpack_format_version_gate
        [of "27 # header_9_9_9 @ [1, 2, 3]" header_9_9_9 "[1, 2, 3]" "[57, 46, 57, 46, 57]"
          "drop 6 header_9_9_9" demo_platform]
      unpack_format_version_gate
        [of "16 # header_valid @ [1, 2, 3]" _ _ _ _ demo_platform
          "\<lparr>metadata = Some \<lparr>version = ''0.1.0'', type = ''x'', nonce = [7]\<rparr>,
            rawMetadata = 16 # header_valid, content = [1, 2, 3]\<rparr>"]
      a b c d u e f
    by simp
qed

subsection \<open>C5: the bytes of a header\<close>

text \<open>
  C5. For every header record, \<open>serialize\<close> emits the length-prefixed
  concatenation of the four length-prefixed fields: the UTF-8 bytes of the fixed
  string \<^verbatim>\<open>0.1.0\<close>, the payload version, the payload type and the nonce. Each
  length prefix is the base-128 continuation-bit varint of the chunk's length:
  every byte of it but the last has its top bit set, and its payload bits spell the
  length.
\<close>

theorem serialize_wire_format:
  "serialize P m = header_layout P m
   \<and> continuation_bits (spec_varint n) \<and> varint_value (spec_varint n) = n"
  by (simp add: serialize_layout continuation_bits_spec_varint varint_value_spec_varint)

subsection \<open>C6: type isolation\<close>

text \<open>
  The specification has \<^verbatim>\<open>decrypt\<close> return \<^verbatim>\<open>null\<close> whenever the expected
  type's tag is not the envelope's. \<^verbatim>\<open>decrypt\<close> runs the expected type's
  \<^verbatim>\<open>deserialize\<close> before it compares the tags, with no handler: an envelope
  tagged \<^verbatim>\<open>foo\<close> whose payload is the bytes \<^verbatim>\<open>[1,2,3,4,5]\<close>, decrypted with
  the class \<^verbatim>\<open>Wrapper('bar', '0.1.*')\<close>, raises the \<^verbatim>\<open>SyntaxError\<close> of
  \<^verbatim>\<open>JSON.parse\<close>.
\<close>

theorem decrypt_with_other_wrapper_raises:
  "encrypt demo_platform demo_box foo_datagram demo_nonce = Inr foo_wire
   \<and> dg_type foo_datagram = ''foo''
   \<and> proto_type (Wrapper_constructor demo_platform bar_class) = Some ''bar''
   \<and> decrypt demo_platform demo_box (Wrapper_constructor demo_platform bar_class) foo_wire
       = Inl SyntaxError"
proof -
  have o: "open_box (key demo_box) demo_nonce (1 # 2 # 3 # 4 # 5 # replicate 16 99) foo_header
           = Inr (Some [1, 2, 3, 4, 5])"
    by (simp add: demo_open)
  have d: "Wrapper_deserialize demo_platform bar_class [1, 2, 3, 4, 5] ''0.1.0'' = Inl SyntaxError"
    by (simp add: Wrapper_deserialize_def demo_platform_def ascii_decode_def demo_parse_def
        demo_text_def demo_text_null_def char_of_eq_iff)
  have "decrypt demo_platform demo_box (Wrapper_constructor demo_platform bar_class) foo_wire
        = Inl SyntaxError"
    by (simp add: decrypt_def foo_wire_def unpack_foo_header o Wrapper_constructor_def d)
  then show ?thesis
    using encrypt_foo by (simp add: foo_datagram_def Wrapper_constructor_def bar_class_def)
qed

text \<open>
  C6, as the code has it. For every key that opens what it seals and every buffer
  that \<^verbatim>\<open>encrypt\<close> produced for a datagram tagged \<^verbatim>\<open>foo\<close>, \<^verbatim>\<open>decrypt\<close>
  with an expected type whose tag is anything else returns \<^verbatim>\<open>null\<close> whenever the
  expected type's \<^verbatim>\<open>deserialize\<close> returns on the plaintext, be it a value or
  \<^verbatim>\<open>null\<close>; when that \<^verbatim>\<open>deserialize\<close> raises, \<^verbatim>\<open>decrypt\<close> raises the
  same fault. The tag and the version are strings that the text codec reads back as
  written; the buffer is a typed array.
\<close>

theorem decrypt_type_isolation:
  assumes enc: "encrypt P box v n = Inr wire"
    and len: "length (buf wire) < 2 ^ 53"
    and t0: "text_roundtrip P METADATA_VERSION"
    and t1: "text_roundtrip P (dg_type v)"
    and t2: "text_roundtrip P (dg_version v)"
    and aead: "opens_what_it_seals (key box)"
    and other: "proto_type cls \<noteq> Some (dg_type v)"
  shows "(proto_deserialize cls (dg_serialize v) (dg_version v) = Inr c
            \<longrightarrow> decrypt P box cls wire = Inr None)
         \<and> (proto_deserialize cls (dg_serialize v) (dg_version v) = Inl e
            \<longrightarrow> decrypt P box cls wire = Inl e)"
proof -
  let ?m = "\<lparr>version = dg_version v, type = dg_type v, nonce = n\<rparr>"
  from unpack_encrypt [OF enc len t0 t1 t2] obtain sealed
    where s: "seal (key box) n (dg_serialize v) (header_layout P ?m) = Inr sealed"
      and u: "unpack P (buf wire)
              = Inr \<lparr>metadata = Some ?m, rawMetadata = header_layout P ?m, content = sealed\<rparr>"
    by blast
  from aead s have o: "open_box (key box) n sealed (header_layout P ?m) = Inr (Some (dg_serialize v))"
    unfolding opens_what_it_seals_def by blast
  show ?thesis
    by (simp add: decrypt_def u o other)
qed

theorem decrypt_type_isolation_witness:
  "encrypt demo_platform demo_box foo_datagram demo_nonce = Inr foo_wire
   \<and> length (buf foo_wire) < 2 ^ 53
   \<and> proto_type bar_constructor \<noteq> Some (dg_type foo_datagram)
   \<and> proto_deserialize bar_constructor (dg_serialize foo_datagram) (dg_version foo_datagram)
       = Inr (Some [1, 2, 3, 4, 5])
   \<and> decrypt demo_platform demo_box bar_constructor foo_wire = Inr None
   \<and> proto_type (Wrapper_constructor demo_platform bar_class) \<noteq> Some (dg_type foo_datagram)
   \<and> proto_deserialize (Wrapper_constructor demo_platform bar_class)
        (dg_serialize foo_datagram) (dg_version foo_datagram) = Inl SyntaxError
   \<and> decrypt demo_platform demo_box (Wrapper_constructor demo_platform bar_class) foo_wire
       = Inl SyntaxError"
proof -
  have l: "length (buf foo_wire) < 2 ^ 53"
    by (simp add: foo_wire_def foo_header_def)
  have aead: "opens_what_it_seals (key demo_box)"
    by (simp add: demo_box_def demo_key_correct)
  have r: "proto_deserialize bar_constructor (dg_serialize foo_datagram) (dg_version foo_datagram)
           = Inr (Some [1, 2, 3, 4, 5])"
    by (simp add: bar_constructor_def foo_datagram_def)
  have o: "proto_type bar_constructor \<noteq> Some (dg_type foo_datagram)"
    by (simp add: bar_constructor_def foo_datagram_def)
  have o': "proto_type (Wrapper_constructor demo_platform bar_class) \<noteq> Some (dg_type foo_datagram)"
    by (simp add: Wrapper_constructor_def bar_class_def foo_datagram_def)
  have r': "proto_deserialize (Wrapper_constructor demo_platform bar_class)
              (dg_serialize foo_datagram) (dg_version foo_datagram) = Inl SyntaxError"
    by (simp add: Wrapper_constructor_def foo_datagram_def Wrapper_deserialize_def
        demo_platform_def ascii_decode_def demo_parse_def demo_text_def demo_text_null_def
        char_of_eq_iff)
  show ?thesis
    using decrypt_type_isolation
        [OF encrypt_foo l ascii_roundtrip ascii_roundtrip ascii_roundtrip aead o,
          of "Some [1, 2, 3, 4, 5]"]
      decrypt_type_isolation
        [OF encrypt_foo l ascii_roundtrip ascii_roundtrip ascii_roundtrip aead o',
          of _ SyntaxError]
      encrypt_foo l o r o' r'
    by simp
qed

subsection \<open>C7: extracting a length-prefixed chunk\<close>




subsection \<open>C8: the version gate of wrap\<close>

text \<open>
  C8. For every class a Wrapper factory built with a version-range constraint,
  \<^verbatim>\<open>wrap(value, version)\<close> raises the validation error when \<open>version\<close> does not
  satisfy the stored constraint, and only then; otherwise it produces an instance
  whose type is the factory's tag and whose version is the one supplied. The stored
  constraint is the factory's argument, parsed if it was text.
\<close>

theorem wrap_version_gate:
  assumes "Wrapper P tag vc = Inr C"
  shows "typeName C = tag
    \<and> (case vc of Inl s \<Rightarrow> new_Range P s = Inr (constraint C) | Inr r \<Rightarrow> constraint C = r)
    \<and> (\<not> test (constraint C) ver \<longrightarrow>
         wrap P C obj ver
         = Inl (Error (''invalid version string. '' @ ver @ '' not in '' @ range (constraint C))))
    \<and> (test (constraint C) ver \<longrightarrow>
         (\<exists>d. wrap P C obj ver = Inr d \<and> dg_type d = tag \<and> dg_version d = ver))"
  using assms by (auto simp add: Wrapper_def wrap_def Let_def split: sum.splits)

text \<open>
  The constraint \<^verbatim>\<open>0.1.*\<close> accepts \<^verbatim>\<open>0.1.0\<close>, \<^verbatim>\<open>0.1.1\<close> and \<^verbatim>\<open>0.1.9\<close>
  and rejects \<^verbatim>\<open>0.2.0\<close>.
\<close>

theorem wrap_version_gate_witness:
  "Wrapper demo_platform ''foo'' (Inl ''0.1.*'') = Inr foo_class
   \<and> (\<exists>d. wrap demo_platform foo_class (JNumber 1) ''0.1.0'' = Inr d
          \<and> dg_type d = ''foo'' \<and> dg_version d = ''0.1.0'')
   \<and> (\<exists>d. wrap demo_platform foo_class (JNumber 1) ''0.1.1'' = Inr d
          \<and> dg_type d = ''foo'' \<and> dg_version d = ''0.1.1'')
   \<and> (\<exists>d. wrap demo_platform foo_class (JNumber 1) ''0.1.9'' = Inr d
          \<and> dg_type d = ''foo'' \<and> dg_version d = ''0.1.9'')
   \<and> wrap demo_platform foo_class (JNumber 1) ''0.2.0''
       = Inl (Error (''invalid version string. 0.2.0 not in '' @ range Range_0_1_x))"
proof -
  have w: "Wrapper demo_platform ''foo'' (Inl ''0.1.*'') = Inr foo_class"
    by (simp add: Wrapper_def demo_platform_def demo_new_Range_def foo_class_def)
  have t: "test (constraint foo_class) ''0.1.0''" "test (constraint foo_class) ''0.1.1''"
    "test (constraint foo_class) ''0.1.9''" "\<not> test (constraint foo_class) ''0.2.0''"
    by (simp_all add: foo_class_def Range_0_1_x_def test_0_1_x_def numeric_def)
  show ?thesis
    using w t
      wrap_version_gate [OF w, of "''0.1.0''" "JNumber 1"]
      wrap_version_gate [OF w, of "''0.1.1''" "JNumber 1"]
      wrap_version_gate [OF w, of "''0.1.9''" "JNumber 1"]
      wrap_version_gate [OF w, of "''0.2.0''" "JNumber 1"]
    by (simp add: foo_class_def)
qed

subsection \<open>C9: the deserialize of a Wrapper class\<close>

text \<open>
  The specification has the generated \<^verbatim>\<open>deserialize\<close> never raise. The code
  calls \<^verbatim>\<open>JSON.parse\<close> with no handler, and \<^verbatim>\<open>JSON.parse\<close> raises on bytes
  that are not a JSON text: on the empty buffer (here with a version outside the
  constraint) and on the bytes \<^verbatim>\<open>[1,2,3,4,5]\<close>.
\<close>

theorem Wrapper_deserialize_raises:
  "Wrapper_deserialize demo_platform foo_class [] ''0.2.0'' = Inl SyntaxError
   \<and> Wrapper_deserialize demo_platform foo_class [1, 2, 3, 4, 5] ''0.1.0'' = Inl SyntaxError"
  by (simp add: Wrapper_deserialize_def demo_platform_def ascii_decode_def demo_parse_def
      demo_text_def demo_text_null_def char_of_eq_iff)

text \<open>
  C9, as the code has it. For every Wrapper class and every input, the generated
  \<^verbatim>\<open>deserialize(bytes, version)\<close> raises the decoder's fault when the decoder
  raises on the bytes. When the decoder returns a value, \<^verbatim>\<open>deserialize\<close> returns
  \<^verbatim>\<open>null\<close> if the value is \<^verbatim>\<open>null\<close>, if its type tag is not the factory's tag
  (or it has none), or if \<open>version\<close> does not satisfy the constraint; otherwise it
  returns the value's \<^verbatim>\<open>data\<close> member alone: given back its own
  serialisation, an instance made by \<^verbatim>\<open>wrap\<close> returns the inner value and not
  the wrapper (when the text codec and the generic codec read back what they wrote).
\<close>

theorem Wrapper_deserialize_cases:
  "(JSON_parse P (decoder_decode P bytes) = Inl e \<longrightarrow> Wrapper_deserialize P C bytes ver = Inl e)
   \<and> (JSON_parse P (decoder_decode P bytes) = Inr j
        \<and> (j = JNull \<or> member j ''type'' \<noteq> Some (JString (typeName C))
             \<or> \<not> test (constraint C) ver)
       \<longrightarrow> Wrapper_deserialize P C bytes ver = Inr None)
   \<and> (JSON_parse P (decoder_decode P bytes) = Inr j
        \<and> j \<noteq> JNull \<and> member j ''type'' = Some (JString (typeName C))
        \<and> test (constraint C) ver
       \<longrightarrow> Wrapper_deserialize P C bytes ver = Inr (nullable (member j ''data'')))
   \<and> (wrap P C obj ver = Inr d
        \<and> text_roundtrip P (JSON_stringify P (wrapped (typeName C) ver obj))
        \<and> JSON_parse P (JSON_stringify P (wrapped (typeName C) ver obj))
           = Inr (wrapped (typeName C) ver obj)
       \<longrightarrow> dg_deserialize d (dg_serialize d) (dg_version d) = Inr (nullable (Some obj)))"
proof (intro conjI impI)
  assume a: "wrap P C obj ver = Inr d
        \<and> text_roundtrip P (JSON_stringify P (wrapped (typeName C) ver obj))
        \<and> JSON_parse P (JSON_stringify P (wrapped (typeName C) ver obj))
           = Inr (wrapped (typeName C) ver obj)"
  then have t: "test (constraint C) ver"
    and d: "d = \<lparr>dg_type = typeName C, dg_version = ver,
              dg_serialize = encoder_encode P (JSON_stringify P (wrapped (typeName C) ver obj)),
              dg_deserialize = Wrapper_deserialize P C\<rparr>"
    by (auto simp add: wrap_def Let_def split: if_splits)
  from a t show "dg_deserialize d (dg_serialize d) (dg_version d) = Inr (nullable (Some obj))"
    unfolding d by (simp add: Wrapper_deserialize_def text_roundtrip_def) (simp add: wrapped_def)
qed (simp_all add: Wrapper_deserialize_def)

theorem Wrapper_deserialize_cases_witness:
  "JSON_parse demo_platform (decoder_decode demo_platform []) = Inl SyntaxError
   \<and> Wrapper_deserialize demo_platform foo_class [] ''0.1.0'' = Inl SyntaxError
   \<and> JSON_parse demo_platform (decoder_decode demo_platform (ascii_encode ''null'')) = Inr JNull
   \<and> Wrapper_deserialize demo_platform foo_class (ascii_encode ''null'') ''0.1.0'' = Inr None
   \<and> JSON_parse demo_platform (decoder_decode demo_platform (ascii_encode demo_text))
       = Inr (wrapped ''foo'' ''0.1.0'' (JNumber 1))
   \<and> Wrapper_deserialize demo_platform foo_class (ascii_encode demo_text) ''0.2.0'' = Inr None
   \<and> Wrapper_deserialize demo_platform foo_class (ascii_encode demo_text) ''0.1.0''
       = Inr (Some (JNumber 1))
   \<and> (\<exists>d. wrap demo_platform foo_class (JNumber 1) ''0.1.0'' = Inr d
         \<and> dg_serialize d = ascii_encode demo_text
         \<and> dg_deserialize d (dg_serialize d) (dg_version d) = Inr (Some (JNumber 1)))"
proof -
  have rt: "decoder_decode demo_platform (ascii_encode s) = s" for s
    using ascii_roundtrip [of s] by (simp add: text_roundtrip_def demo_platform_def)
  have p1: "JSON_parse demo_platform (decoder_decode demo_platform []) = Inl SyntaxError"
    by (simp add: demo_platform_def ascii_decode_def demo_parse_def demo_text_def demo_text_null_def)
  have p2: "JSON_parse demo_platform (decoder_decode demo_platform (ascii_encode ''null''))
            = Inr JNull"
    by (simp add: rt) (simp add: demo_platform_def demo_parse_def demo_text_def demo_text_null_def)
  have p3: "JSON_parse demo_platform (decoder_decode demo_platform (ascii_encode demo_text))
            = Inr (wrapped ''foo'' ''0.1.0'' (JNumber 1))"
    by (simp add: rt) (simp add: demo_platform_def demo_parse_def demo_doc_def demo_text_def demo_text_null_def)
  have t: "test (constraint foo_class) ''0.1.0''" "\<not> test (constraint foo_class) ''0.2.0''"
    by (simp_all add: foo_class_def Range_0_1_x_def test_0_1_x_def numeric_def)
  have n: "typeName foo_class = ''foo''"
    by (simp add: foo_class_def)
  have s: "JSON_stringify demo_platform (wrapped ''foo'' ''0.1.0'' (JNumber 1)) = demo_text"
    by (simp add: demo_platform_def demo_stringify_def demo_doc_def)
  have q: "JSON_parse demo_platform demo_text = Inr (wrapped ''foo'' ''0.1.0'' (JNumber 1))"
    by (simp add: demo_platform_def demo_parse_def demo_doc_def demo_text_def demo_text_null_def)
  obtain d where w: "wrap demo_platform foo_class (JNumber 1) ''0.1.0'' = Inr d"
    and ds: "dg_serialize d = ascii_encode demo_text"
    using t(1) s by (simp add: wrap_def Let_def n) (simp add: demo_platform_def)
  have first: "Wrapper_deserialize demo_platform foo_class [] ''0.1.0'' = Inl SyntaxError"
    using p1 Wrapper_deserialize_cases [of demo_platform "[]" SyntaxError foo_class "''0.1.0''"]
    by simp
  have second: "Wrapper_deserialize demo_platform foo_class (ascii_encode ''null'') ''0.1.0''
                = Inr None"
    using p2 Wrapper_deserialize_cases
        [of demo_platform "ascii_encode ''null''" _ foo_class "''0.1.0''" JNull]
    by simp
  have third: "Wrapper_deserialize demo_platform foo_class (ascii_encode demo_text) ''0.2.0''
               = Inr None"
    using p3 t Wrapper_deserialize_cases
        [of demo_platform "ascii_encode demo_text" _ foo_class "''0.2.0''"
          "wrapped ''foo'' ''0.1.0'' (JNumber 1)"]
    by simp
  have fourth: "Wrapper_deserialize demo_platform foo_class (ascii_encode demo_text) ''0.1.0''
                = Inr (Some (JNumber 1))"
    using p3 t n Wrapper_deserialize_cases
        [of demo_platform "ascii_encode demo_text" _ foo_class "''0.1.0''"
          "wrapped ''foo'' ''0.1.0'' (JNumber 1)"]
    by (simp add: wrapped_def)
  have fifth: "dg_deserialize d (dg_serialize d) (dg_version d) = Inr (Some (JNumber 1))"
    using w s q n ascii_roundtrip [of demo_text] Wrapper_deserialize_cases
        [of demo_platform _ _ foo_class "''0.1.0''" _ "JNumber 1" d]
    by simp
  show ?thesis
    using p1 p2 p3 first second third fourth fifth w ds by blast
qed

subsection \<open>C10: what encrypt reads of a datagram\<close>

text \<open>
  C10. For every key, every datagram and every nonce supplied by the caller,
  \<^verbatim>\<open>encrypt\<close> is determined by the key, the nonce, and the datagram's type,
  version and serialised bytes: two datagrams that agree on those three give the
  same outcome, byte for byte. The key object is a function of its arguments, as
  the cipher is.
\<close>

theorem encrypt_reads_three_members:
  assumes "dg_type v = dg_type w" and "dg_version v = dg_version w"
    and "dg_serialize v = dg_serialize w"
  shows "encrypt P box v n = encrypt P box w n"
  using assms by (simp add: encrypt_def)

theorem encrypt_reads_three_members_witness:
  "dg_type foo_datagram = dg_type (foo_datagram\<lparr>dg_deserialize := (\<lambda>d ver. Inr None)\<rparr>)
   \<and> dg_version foo_datagram = dg_version (foo_datagram\<lparr>dg_deserialize := (\<lambda>d ver. Inr None)\<rparr>)
   \<and> dg_serialize foo_datagram = dg_serialize (foo_datagram\<lparr>dg_deserialize := (\<lambda>d ver. Inr None)\<rparr>)
   \<and> dg_deserialize foo_datagram [] [] \<noteq> Inr None
   \<and> encrypt demo_platform demo_box foo_datagram demo_nonce
       = encrypt demo_platform demo_box (foo_datagram\<lparr>dg_deserialize := (\<lambda>d ver. Inr None)\<rparr>)
           demo_nonce"
  using encrypt_reads_three_members
    [of foo_datagram "foo_datagram\<lparr>dg_deserialize := (\<lambda>d ver. Inr None)\<rparr>"
      demo_platform demo_box demo_nonce]
  by (simp add: foo_datagram_def)

end
